theory Spec2Isabelle
  imports Complex_Main
begin

section \<open>ECMAScript dates\<close>

text \<open>
  The store and the views keep a transaction's date as a date-only string
  (the form \<^verbatim>\<open>YYYY-MM-DD\<close> that the date input and
  \<^verbatim>\<open>toISOString().split('T')[0]\<close> produce) and turn it into a
  \<^verbatim>\<open>Date\<close> wherever they need it. A \<^verbatim>\<open>Date\<close> is its time value: the
  milliseconds since 1970-01-01T00:00Z. The functions below follow the
  abstract operations of the ECMAScript specification (Day, DayFromYear,
  YearFromTime, MonthFromTime, DateFromTime, MakeDay, LocalTime, UTC).

  The host time zone is a parameter \<open>tz\<close>: the minutes that local time is
  ahead of UTC (180 for Europe/Istanbul, -300 for New York in winter). The
  offset is fixed, so zones with daylight saving are covered only between
  two transitions. Time values are unbounded integers: the range check of
  TimeClip is left out.
\<close>

definition msPerDay :: int where
  "msPerDay = 86400000"

definition msPerMinute :: int where
  "msPerMinute = 60000"

definition Day :: "int \<Rightarrow> int" where
  "Day t = t div msPerDay"

definition TimeWithinDay :: "int \<Rightarrow> int" where
  "TimeWithinDay t = t mod msPerDay"

definition DaysInYear :: "int \<Rightarrow> int" where
  "DaysInYear y =
     (if y mod 4 \<noteq> 0 then 365
      else if y mod 100 \<noteq> 0 then 366
      else if y mod 400 \<noteq> 0 then 365
      else 366)"

definition DayFromYear :: "int \<Rightarrow> int" where
  "DayFromYear y =
     365 * (y - 1970) + (y - 1969) div 4 - (y - 1901) div 100 + (y - 1601) div 400"

text \<open>
  YearFromTime is "the largest year whose first day is not after the day":
  computed from an estimate that is off by at most one.
\<close>

definition YearFromDay :: "int \<Rightarrow> int" where
  "YearFromDay d =
     (let y = 1970 + (d * 400) div 146097
      in if DayFromYear (y + 1) \<le> d then y + 1
         else if DayFromYear y \<le> d then y
         else y - 1)"

definition InLeapYear :: "int \<Rightarrow> int" where
  "InLeapYear y = (if DaysInYear y = 366 then 1 else 0)"

definition DayWithinYear :: "int \<Rightarrow> int" where
  "DayWithinYear d = d - DayFromYear (YearFromDay d)"

definition MonthFromDay :: "int \<Rightarrow> int" where
  "MonthFromDay d =
     (let w = DayWithinYear d; l = InLeapYear (YearFromDay d)
      in if w < 31 then 0
         else if w < 59 + l then 1
         else if w < 90 + l then 2
         else if w < 120 + l then 3
         else if w < 151 + l then 4
         else if w < 181 + l then 5
         else if w < 212 + l then 6
         else if w < 243 + l then 7
         else if w < 273 + l then 8
         else if w < 304 + l then 9
         else if w < 334 + l then 10
         else 11)"

text \<open>The day within the year on which month \<open>mn\<close> (0 to 11) starts.\<close>

definition MonthStart :: "int \<Rightarrow> int \<Rightarrow> int" where
  "MonthStart l mn =
     (if mn = 0 then 0
      else if mn = 1 then 31
      else if mn = 2 then 59 + l
      else if mn = 3 then 90 + l
      else if mn = 4 then 120 + l
      else if mn = 5 then 151 + l
      else if mn = 6 then 181 + l
      else if mn = 7 then 212 + l
      else if mn = 8 then 243 + l
      else if mn = 9 then 273 + l
      else if mn = 10 then 304 + l
      else 334 + l)"

definition DateFromDay :: "int \<Rightarrow> int" where
  "DateFromDay d =
     DayWithinYear d - MonthStart (InLeapYear (YearFromDay d)) (MonthFromDay d) + 1"

text \<open>
  MakeDay carries a month outside 0 to 11 into the year and a day outside
  the month into the neighbouring months: day 31 of a 30-day month is the
  first day of the next month, day 0 is the last day of the month before.
\<close>

definition MakeDay :: "int \<Rightarrow> int \<Rightarrow> int \<Rightarrow> int" where
  "MakeDay year month dt =
     (let ym = year + month div 12; mn = month mod 12
      in DayFromYear ym + MonthStart (InLeapYear ym) mn + dt - 1)"

definition LocalTime :: "int \<Rightarrow> int \<Rightarrow> int" where
  "LocalTime tz t = t + tz * msPerMinute"

definition UTC :: "int \<Rightarrow> int \<Rightarrow> int" where
  "UTC tz t = t - tz * msPerMinute"

text \<open>
  \<^verbatim>\<open>new Date(year, month, day)\<close>: midnight of that local date; a year from 0
  to 99 means 1900 + year.
\<close>

definition yr :: "int \<Rightarrow> int" where
  "yr year = (if 0 \<le> year \<and> year \<le> 99 then 1900 + year else year)"

definition newDate :: "int \<Rightarrow> int \<Rightarrow> int \<Rightarrow> int \<Rightarrow> int" where
  "newDate tz year month dt = UTC tz (MakeDay (yr year) month dt * msPerDay)"

definition getFullYear :: "int \<Rightarrow> int \<Rightarrow> int" where
  "getFullYear tz t = YearFromDay (Day (LocalTime tz t))"

definition getMonth :: "int \<Rightarrow> int \<Rightarrow> int" where
  "getMonth tz t = MonthFromDay (Day (LocalTime tz t))"

definition getDate :: "int \<Rightarrow> int \<Rightarrow> int" where
  "getDate tz t = DateFromDay (Day (LocalTime tz t))"

text \<open>\<^verbatim>\<open>d.setHours(0, 0, 0, 0)\<close>: midnight of the local day of \<open>t\<close>.\<close>

definition setHours0 :: "int \<Rightarrow> int \<Rightarrow> int" where
  "setHours0 tz t = UTC tz (Day (LocalTime tz t) * msPerDay)"

text \<open>\<^verbatim>\<open>d.setDate(n)\<close>: day \<open>n\<close> of the local month of \<open>t\<close>, same time of day.\<close>

definition setDate :: "int \<Rightarrow> int \<Rightarrow> int \<Rightarrow> int" where
  "setDate tz t n =
     (let lt = LocalTime tz t
      in UTC tz (MakeDay (YearFromDay (Day lt)) (MonthFromDay (Day lt)) n * msPerDay
                 + TimeWithinDay lt))"

text \<open>\<^verbatim>\<open>Math.ceil(diffTime / (1000 * 60 * 60 * 24))\<close> on integers.\<close>

definition ceilDays :: "int \<Rightarrow> int" where
  "ceilDays diffTime = - ((- diffTime) div msPerDay)"

text \<open>
  A date-only string, held as its three numbers: \<open>DateString 2025 3 5\<close> is
  \<^verbatim>\<open>"2025-03-05"\<close>. \<^verbatim>\<open>new Date(s)\<close> reads a date-only string as midnight UTC
  of that day; a string that names no day of the calendar gives an invalid
  date (\<open>None\<close>), whose getters are NaN and whose comparisons are all false.
  That is the rule of the date-time string format; engines differ on a day
  from 29 to 31 that the month does not have (V8 carries it into the next
  month), and no statement below is about such a string.
\<close>

datatype DateString = DateString (ds_year: int) (ds_month: int) (ds_day: int)

definition DaysInMonth :: "int \<Rightarrow> int \<Rightarrow> int" where
  "DaysInMonth y mn = MakeDay y (mn + 1) 1 - MakeDay y mn 1"

definition validDateString :: "DateString \<Rightarrow> bool" where
  "validDateString s =
     (0 \<le> ds_year s \<and> ds_year s \<le> 9999 \<and> 1 \<le> ds_month s \<and> ds_month s \<le> 12 \<and>
      1 \<le> ds_day s \<and> ds_day s \<le> DaysInMonth (ds_year s) (ds_month s - 1))"

definition parseDate :: "DateString \<Rightarrow> int option" where
  "parseDate s =
     (if validDateString s
      then Some (MakeDay (ds_year s) (ds_month s - 1) (ds_day s) * msPerDay)
      else None)"

text \<open>\<^verbatim>\<open>new Date().toISOString().split('T')[0]\<close>: the UTC date of the instant.\<close>

definition isoDateOf :: "int \<Rightarrow> DateString" where
  "isoDateOf t = DateString (YearFromDay (Day t)) (MonthFromDay (Day t) + 1) (DateFromDay (Day t))"

section \<open>The store\<close>

datatype Currency = TRY | USD | EUR

datatype TransactionType = Income | Expense

datatype TransactionCategory =
  Salary | Freelance | Investment | Gift | Food | Transport | Shopping
  | Utilities | Entertainment | Health | Education | Other

text \<open>
  Optional fields are options: \<open>None\<close> is \<^verbatim>\<open>undefined\<close>. Amounts are
  real numbers, recurring days integers, and \<^verbatim>\<open>createdAt\<close> is the instant
  that the stored ISO string prints. The fields \<^verbatim>\<open>id\<close>, \<^verbatim>\<open>name\<close>,
  \<^verbatim>\<open>type\<close> and \<^verbatim>\<open>createdAt\<close> carry the suffix of their record.
\<close>

record Profile =
  id_P :: string
  name_P :: string
  avatarColor :: string
  currency :: Currency
  createdAt_P :: int


record Transaction =
  id_T :: string
  profileId :: string
  type_T :: TransactionType
  amount :: real
  category :: TransactionCategory
  title :: string
  description :: "string option"
  date :: DateString
  createdAt_T :: int
  isRecurring :: "bool option"
  recurringDay :: "int option"

record NovaFlowStore =
  profiles :: "Profile list"
  transactions :: "Transaction list"
  activeProfileId :: "string option"
  lastCleanupMonth :: "string option"

definition deleteProfile :: "string \<Rightarrow> NovaFlowStore \<Rightarrow> NovaFlowStore" where
  "deleteProfile i state =
     state\<lparr>profiles := filter (\<lambda>p. id_P p \<noteq> i) (profiles state),
           transactions := filter (\<lambda>t. profileId t \<noteq> i) (transactions state),
           activeProfileId :=
             (if activeProfileId state = Some i then None else activeProfileId state)\<rparr>"

text \<open>
  \<^verbatim>\<open>addTransaction\<close>: the fresh identifier and the clock reading are
  parameters. \<^verbatim>\<open>date || ...\<close> and \<^verbatim>\<open>isRecurring || false\<close> take the default
  when the argument is undefined (\<open>None\<close>; for the date also the empty string).
\<close>

definition addTransaction ::
  "string \<Rightarrow> int \<Rightarrow> string \<Rightarrow> TransactionType \<Rightarrow> real \<Rightarrow> TransactionCategory \<Rightarrow> string
   \<Rightarrow> string option \<Rightarrow> DateString option \<Rightarrow> bool option \<Rightarrow> int option
   \<Rightarrow> NovaFlowStore \<Rightarrow> NovaFlowStore" where
  "addTransaction newId now pid ty amt cat ttl descr dt isRec recDay state =
     (let newTransaction =
        \<lparr>id_T = newId, profileId = pid, type_T = ty, amount = amt, category = cat,
         title = ttl, description = descr,
         date = (case dt of Some d \<Rightarrow> d | None \<Rightarrow> isoDateOf now),
         createdAt_T = now,
         isRecurring = Some (isRec = Some True),
         recurringDay = (if isRec = Some True then recDay else None)\<rparr>
      in state\<lparr>transactions := newTransaction # transactions state\<rparr>)"

text \<open>
  The \<^verbatim>\<open>data\<close> of \<^verbatim>\<open>updateTransaction\<close> is a partial transaction: each key
  is absent (\<open>None\<close>) or present; a present optional field may hold
  \<^verbatim>\<open>undefined\<close> (\<open>Some None\<close>). The spread \<^verbatim>\<open>{ ...t, ...data }\<close> takes every
  present key from \<^verbatim>\<open>data\<close>.
\<close>

record TransactionPatch =
  type_D :: "TransactionType option"
  amount_D :: "real option"
  category_D :: "TransactionCategory option"
  title_D :: "string option"
  description_D :: "string option option"
  date_D :: "DateString option"
  isRecurring_D :: "bool option option"
  recurringDay_D :: "int option option"

definition spread :: "Transaction \<Rightarrow> TransactionPatch \<Rightarrow> Transaction" where
  "spread t d =
     t\<lparr>type_T := (case type_D d of None \<Rightarrow> type_T t | Some v \<Rightarrow> v),
       amount := (case amount_D d of None \<Rightarrow> amount t | Some v \<Rightarrow> v),
       category := (case category_D d of None \<Rightarrow> category t | Some v \<Rightarrow> v),
       title := (case title_D d of None \<Rightarrow> title t | Some v \<Rightarrow> v),
       description := (case description_D d of None \<Rightarrow> description t | Some v \<Rightarrow> v),
       date := (case date_D d of None \<Rightarrow> date t | Some v \<Rightarrow> v),
       isRecurring := (case isRecurring_D d of None \<Rightarrow> isRecurring t | Some v \<Rightarrow> v),
       recurringDay := (case recurringDay_D d of None \<Rightarrow> recurringDay t | Some v \<Rightarrow> v)\<rparr>"

definition updateTransaction :: "string \<Rightarrow> TransactionPatch \<Rightarrow> NovaFlowStore \<Rightarrow> NovaFlowStore" where
  "updateTransaction i d state =
     state\<lparr>transactions := map (\<lambda>t. if id_T t = i then spread t d else t) (transactions state)\<rparr>"

section \<open>Monthly cleanup\<close>

text \<open>Decimal digits of a number, as a template literal prints an integer.\<close>

fun digitsOf :: "nat \<Rightarrow> string" where
  "digitsOf n =
     (if n < 10 then [''0123456789'' ! n]
      else digitsOf (n div 10) @ [''0123456789'' ! (n mod 10)])"

definition numberToString :: "int \<Rightarrow> string" where
  "numberToString i = (if i < 0 then CHR ''-'' # digitsOf (nat (- i)) else digitsOf (nat i))"

text \<open>\<^verbatim>\<open>s.padStart(2, '0')\<close>\<close>

definition padStart2 :: "string \<Rightarrow> string" where
  "padStart2 s = replicate (2 - length s) CHR ''0'' @ s"

definition currentMonthKey :: "int \<Rightarrow> int \<Rightarrow> string" where
  "currentMonthKey tz now =
     numberToString (getFullYear tz now) @ ''-'' @ padStart2 (numberToString (getMonth tz now + 1))"

text \<open>
  The clock readings of one action are one instant \<open>now\<close>. A truthy
  \<^verbatim>\<open>t.isRecurring\<close> is \<open>Some True\<close>.
\<close>

definition isCurrentMonth :: "int \<Rightarrow> int \<Rightarrow> Transaction \<Rightarrow> bool" where
  "isCurrentMonth tz now t =
     (let currentMonth = getMonth tz now; currentYear = getFullYear tz now
      in case parseDate (date t) of
           None \<Rightarrow> False
         | Some transactionDate \<Rightarrow>
             getMonth tz transactionDate = currentMonth \<and>
             getFullYear tz transactionDate = currentYear)"

definition cleanupNonRecurringTransactions :: "int \<Rightarrow> int \<Rightarrow> NovaFlowStore \<Rightarrow> NovaFlowStore" where
  "cleanupNonRecurringTransactions tz now state =
     state\<lparr>transactions :=
       filter (\<lambda>t. if isRecurring t = Some True then True else isCurrentMonth tz now t)
         (transactions state)\<rparr>"

definition checkAndPerformMonthlyCleanup :: "int \<Rightarrow> int \<Rightarrow> NovaFlowStore \<Rightarrow> NovaFlowStore" where
  "checkAndPerformMonthlyCleanup tz now state =
     (let key = currentMonthKey tz now; lastCleanup = lastCleanupMonth state
      in if lastCleanup \<noteq> Some key
         then (cleanupNonRecurringTransactions tz now state)\<lparr>lastCleanupMonth := Some key\<rparr>
         else state)"

section \<open>Calendar view\<close>

text \<open>
  The test of one transaction against day \<open>day\<close> of the displayed month
  \<open>currentMonth\<close> (0 to 11) of \<open>currentYear\<close>.
\<close>

definition isMatch :: "int \<Rightarrow> int \<Rightarrow> int \<Rightarrow> int \<Rightarrow> Transaction \<Rightarrow> bool" where
  "isMatch tz currentYear currentMonth day t =
     (case parseDate (date t) of
        None \<Rightarrow> False
      | Some tDate \<Rightarrow>
          getDate tz tDate = day \<and> getMonth tz tDate = currentMonth \<and>
          getFullYear tz tDate = currentYear)"

definition isRecurringMatch :: "int \<Rightarrow> int \<Rightarrow> int \<Rightarrow> int \<Rightarrow> Transaction \<Rightarrow> bool" where
  "isRecurringMatch tz currentYear currentMonth day t =
     (isRecurring t = Some True \<and> recurringDay t = Some day \<and>
      (case parseDate (date t) of
         None \<Rightarrow> False
       | Some tDate \<Rightarrow>
           currentYear > getFullYear tz tDate \<or>
           (currentYear = getFullYear tz tDate \<and> currentMonth \<ge> getMonth tz tDate)))"

record DayData =
  day_of :: int
  income :: real
  expense :: real
  dayTransactions :: "Transaction list"

definition dayStep :: "int \<Rightarrow> int \<Rightarrow> int \<Rightarrow> Transaction \<Rightarrow> DayData \<Rightarrow> DayData" where
  "dayStep tz currentYear currentMonth t d =
     (if isMatch tz currentYear currentMonth (day_of d) t \<or>
         isRecurringMatch tz currentYear currentMonth (day_of d) t
      then (if type_T t = Income
            then d\<lparr>income := income d + amount t, dayTransactions := dayTransactions d @ [t]\<rparr>
            else d\<lparr>expense := expense d + amount t, dayTransactions := dayTransactions d @ [t]\<rparr>)
      else d)"

definition calendarDay :: "int \<Rightarrow> int \<Rightarrow> int \<Rightarrow> int \<Rightarrow> Transaction list \<Rightarrow> DayData" where
  "calendarDay tz currentYear currentMonth day txs =
     fold (dayStep tz currentYear currentMonth) txs
       \<lparr>day_of = day, income = 0, expense = 0, dayTransactions = []\<rparr>"

text \<open>The days of the displayed month, 1 to \<^verbatim>\<open>daysInMonth\<close>.\<close>

definition calendarData :: "int \<Rightarrow> int \<Rightarrow> int \<Rightarrow> Transaction list \<Rightarrow> DayData list" where
  "calendarData tz currentYear currentMonth txs =
     (let daysInMonth = getDate tz (newDate tz currentYear (currentMonth + 1) 0)
      in map (\<lambda>day. calendarDay tz currentYear currentMonth day txs) [1..daysInMonth])"

section \<open>Upcoming payments\<close>

record UpcomingItem =
  transaction :: Transaction
  dueDate :: int
  daysLeft :: int

text \<open>The next occurrence of a recurring day, \<open>today\<close> being local midnight.\<close>

definition nextDueDate :: "int \<Rightarrow> int \<Rightarrow> int \<Rightarrow> int" where
  "nextDueDate tz today recDay =
     (let dueDate0 = newDate tz (getFullYear tz today) (getMonth tz today) recDay;
          dueDate1 = (if dueDate0 < today
                      then newDate tz (getFullYear tz today) (getMonth tz today + 1) recDay
                      else dueDate0);
          lastDayOfMonth =
            getDate tz (newDate tz (getFullYear tz dueDate1) (getMonth tz dueDate1 + 1) 0)
      in if recDay > lastDayOfMonth then setDate tz dueDate1 lastDayOfMonth else dueDate1)"

definition recurringDaysLeft :: "int \<Rightarrow> int \<Rightarrow> int \<Rightarrow> int" where
  "recurringDaysLeft tz today recDay = ceilDays (nextDueDate tz today recDay - today)"

text \<open>
  \<^verbatim>\<open>t.isRecurring && t.recurringDay\<close>: an undefined day and the day 0 are falsy.
\<close>

definition recurringTransactions :: "Transaction list \<Rightarrow> Transaction list" where
  "recurringTransactions txs =
     filter (\<lambda>t. isRecurring t = Some True \<and> recurringDay t \<noteq> None \<and> recurringDay t \<noteq> Some 0) txs"

definition recurringItem :: "int \<Rightarrow> int \<Rightarrow> Transaction \<Rightarrow> UpcomingItem list" where
  "recurringItem tz today t =
     (case recurringDay t of
        None \<Rightarrow> []
      | Some recDay \<Rightarrow>
          (let d = recurringDaysLeft tz today recDay
           in if d \<le> 30 \<and> d \<ge> 0
              then [\<lparr>transaction = t, dueDate = nextDueDate tz today recDay, daysLeft = d\<rparr>]
              else []))"

text \<open>
  The day difference of a dated transaction; \<open>None\<close> is the NaN of an
  invalid date.
\<close>

definition futureDaysLeft :: "int \<Rightarrow> int \<Rightarrow> Transaction \<Rightarrow> int option" where
  "futureDaysLeft tz today t =
     (case parseDate (date t) of
        None \<Rightarrow> None
      | Some tDate \<Rightarrow> Some (ceilDays (setHours0 tz tDate - today)))"

definition futureTransactions :: "int \<Rightarrow> int \<Rightarrow> Transaction list \<Rightarrow> Transaction list" where
  "futureTransactions tz today txs =
     filter (\<lambda>t. if isRecurring t = Some True then False
                 else (case futureDaysLeft tz today t of
                         None \<Rightarrow> False
                       | Some d \<Rightarrow> d > 0 \<and> d \<le> 30)) txs"

definition futureItem :: "int \<Rightarrow> int \<Rightarrow> Transaction \<Rightarrow> UpcomingItem list" where
  "futureItem tz today t =
     (case parseDate (date t) of
        None \<Rightarrow> []
      | Some tDate \<Rightarrow>
          [\<lparr>transaction = t, dueDate = setHours0 tz tDate,
            daysLeft = ceilDays (setHours0 tz tDate - today)\<rparr>])"

text \<open>
  \<^verbatim>\<open>items.sort((a, b) => a.daysLeft - b.daysLeft)\<close> is a stable sort on
  \<^verbatim>\<open>daysLeft\<close>.
\<close>

definition upcomingItems :: "int \<Rightarrow> int \<Rightarrow> Transaction list \<Rightarrow> UpcomingItem list" where
  "upcomingItems tz now txs =
     (let today = setHours0 tz now;
          items = concat (map (recurringItem tz today) (recurringTransactions txs))
                  @ concat (map (futureItem tz today) (futureTransactions tz today txs))
      in sort_key daysLeft items)"

section \<open>Period aggregation\<close>

datatype PeriodType = Month | Quarter | Half | Year

record ExportData =
  transactions_E :: "Transaction list"
  profileName :: string
  currency_E :: Currency
  periodLabel :: string
  totalIncome :: real
  totalExpense :: real
  balance :: real

definition monthNames :: "string list" where
  "monthNames = [''Ocak'', ''Subat'', ''Mart'', ''Nisan'', ''Mayis'', ''Haziran'',
                 ''Temmuz'', ''Agustos'', ''Eylul'', ''Ekim'', ''Kasim'', ''Aralik'']"

definition monthName :: "int \<Rightarrow> string" where
  "monthName m = (if 0 \<le> m \<and> m < 12 then monthNames ! nat m else ''undefined'')"

text \<open>
  The label and the two bounds of a period; \<open>m\<close> is
  \<^verbatim>\<open>month ?? new Date().getMonth()\<close>.
\<close>

definition periodBounds :: "int \<Rightarrow> PeriodType \<Rightarrow> int \<Rightarrow> int \<Rightarrow> string \<times> int \<times> int" where
  "periodBounds tz periodType year m =
     (case periodType of
        Month \<Rightarrow>
          (monthName m @ '' '' @ numberToString year,
           newDate tz year m 1, newDate tz year (m + 1) 0)
      | Quarter \<Rightarrow>
          (let q = m div 3
           in (numberToString (q + 1) @ ''. Ceyrek '' @ numberToString year,
               newDate tz year (q * 3) 1, newDate tz year ((q + 1) * 3) 0))
      | Half \<Rightarrow>
          (let h = (if m < 6 then 0 else 1)
           in ((if h = 0 then ''Ilk Yari '' else ''Ikinci Yari '') @ numberToString year,
               newDate tz year (h * 6) 1, newDate tz year ((h + 1) * 6) 0))
      | Year \<Rightarrow>
          (numberToString year @ '' Yili'', newDate tz year 0 1, newDate tz year 11 31))"

definition inPeriod :: "int \<Rightarrow> int \<Rightarrow> Transaction \<Rightarrow> bool" where
  "inPeriod startDate endDate t =
     (case parseDate (date t) of
        None \<Rightarrow> False
      | Some d \<Rightarrow> d \<ge> startDate \<and> d \<le> endDate)"

text \<open>
  \<^verbatim>\<open>reduce((sum, t) => sum + t.amount, 0)\<close>; the sum is exact here, where the
  code adds doubles.
\<close>

definition sumAmounts :: "Transaction list \<Rightarrow> real" where
  "sumAmounts ts = foldl (\<lambda>sum t. sum + amount t) 0 ts"

definition calculatePeriodData ::
  "int \<Rightarrow> int \<Rightarrow> Transaction list \<Rightarrow> string \<Rightarrow> Currency \<Rightarrow> PeriodType \<Rightarrow> int \<Rightarrow> int option
   \<Rightarrow> ExportData" where
  "calculatePeriodData tz now txs pname cur periodType year month =
     (let m = (case month of Some v \<Rightarrow> v | None \<Rightarrow> getMonth tz now);
          (label, startDate, endDate) = periodBounds tz periodType year m;
          filteredTransactions = filter (inPeriod startDate endDate) txs;
          totalIncome = sumAmounts (filter (\<lambda>t. type_T t = Income) filteredTransactions);
          totalExpense = sumAmounts (filter (\<lambda>t. type_T t = Expense) filteredTransactions)
      in \<lparr>transactions_E = filteredTransactions, profileName = pname, currency_E = cur,
          periodLabel = label, totalIncome = totalIncome, totalExpense = totalExpense,
          balance = totalIncome - totalExpense\<rparr>)"

section \<open>Grouping in the reports\<close>

text \<open>
  \<^verbatim>\<open>incomeByCategory\<close> and \<^verbatim>\<open>expenseByTitle\<close> are objects used as
  dictionaries. A title that names a property of \<^verbatim>\<open>Object.prototype\<close> finds
  that inherited, truthy value: the branch that adds to the found bucket
  runs and the dictionary gets no key of its own.
\<close>

record Bucket =
  amount_B :: real
  category_B :: TransactionCategory

definition ObjectPrototypeKeys :: "string list" where
  "ObjectPrototypeKeys =
     [''constructor'', ''hasOwnProperty'', ''isPrototypeOf'', ''propertyIsEnumerable'',
      ''toLocaleString'', ''toString'', ''valueOf'', ''__proto__'', ''__defineGetter__'',
      ''__defineSetter__'', ''__lookupGetter__'', ''__lookupSetter__'']"

type_synonym Groups = "(TransactionCategory \<rightharpoonup> real) \<times> (string \<rightharpoonup> Bucket)"

definition groupStep :: "Transaction \<Rightarrow> Groups \<Rightarrow> Groups" where
  "groupStep t g =
     (case g of (incomeByCategory, expenseByTitle) \<Rightarrow>
        if type_T t = Income
        then (incomeByCategory(category t \<mapsto>
                (case incomeByCategory (category t) of None \<Rightarrow> 0 | Some a \<Rightarrow> a) + amount t),
              expenseByTitle)
        else (incomeByCategory,
              (case expenseByTitle (title t) of
                 Some b \<Rightarrow> expenseByTitle(title t \<mapsto> b\<lparr>amount_B := amount_B b + amount t\<rparr>)
               | None \<Rightarrow>
                   if title t \<in> set ObjectPrototypeKeys then expenseByTitle
                   else expenseByTitle(title t \<mapsto>
                          \<lparr>amount_B = amount t, category_B = category t\<rparr>))))"

definition groupTransactions :: "Transaction list \<Rightarrow> Groups" where
  "groupTransactions ts = fold groupStep ts (Map.empty, Map.empty)"

text \<open>
  The two places of the reports page that group: the period report (the
  period of the current year and month) and the report of the current
  month.
\<close>

definition periodData_groups :: "int \<Rightarrow> int \<Rightarrow> PeriodType \<Rightarrow> Transaction list \<Rightarrow> Groups" where
  "periodData_groups tz now selectedPeriod txs =
     (let (label, startDate, endDate) =
            periodBounds tz selectedPeriod (getFullYear tz now) (getMonth tz now)
      in groupTransactions (filter (inPeriod startDate endDate) txs))"

definition monthlyData_groups :: "int \<Rightarrow> int \<Rightarrow> Transaction list \<Rightarrow> Groups" where
  "monthlyData_groups tz now txs = groupTransactions (filter (isCurrentMonth tz now) txs)"

section \<open>Well-formedness and sample data\<close>

definition initialState :: NovaFlowStore where
  "initialState =
     \<lparr>profiles = [], transactions = [], activeProfileId = None, lastCleanupMonth = None\<rparr>"

text \<open>
  The invariant of the data model on one transaction: it recurs exactly
  when it has a recurring day from 1 to 31.
\<close>

definition recurringInvariant :: "Transaction \<Rightarrow> bool" where
  "recurringInvariant t =
     ((isRecurring t = Some True) =
      (case recurringDay t of None \<Rightarrow> False | Some d \<Rightarrow> 1 \<le> d \<and> d \<le> 31))"

text \<open>The same condition on the two arguments a caller passes.\<close>

definition validRecurrence :: "bool option \<Rightarrow> int option \<Rightarrow> bool" where
  "validRecurrence isRec recDay =
     ((isRec = Some True) = (case recDay of None \<Rightarrow> False | Some d \<Rightarrow> 1 \<le> d \<and> d \<le> 31))"

text \<open>
  A patch that leaves both recurrence fields alone or sets both to a valid
  pair.
\<close>

definition keepsRecurrence :: "TransactionPatch \<Rightarrow> bool" where
  "keepsRecurrence d =
     (case (isRecurring_D d, recurringDay_D d) of
        (None, None) \<Rightarrow> True
      | (Some isRec, Some recDay) \<Rightarrow> validRecurrence isRec recDay
      | _ \<Rightarrow> False)"

definition noPatch :: TransactionPatch where
  "noPatch =
     \<lparr>type_D = None, amount_D = None, category_D = None, title_D = None,
      description_D = None, date_D = None, isRecurring_D = None, recurringDay_D = None\<rparr>"

text \<open>A transaction of profile \<open>p1\<close> with no description, for the examples.\<close>

definition sampleTx ::
  "string \<Rightarrow> TransactionType \<Rightarrow> real \<Rightarrow> TransactionCategory \<Rightarrow> string \<Rightarrow> DateString
   \<Rightarrow> bool \<Rightarrow> int option \<Rightarrow> Transaction" where
  "sampleTx i ty amt cat ttl d isRec recDay =
     \<lparr>id_T = i, profileId = ''p1'', type_T = ty, amount = amt, category = cat, title = ttl,
      description = None, date = d, createdAt_T = 0, isRecurring = Some isRec,
      recurringDay = recDay\<rparr>"

definition sampleStore :: NovaFlowStore where
  "sampleStore =
     \<lparr>profiles =
        [\<lparr>id_P = ''p1'', name_P = ''Ev'', avatarColor = ''#06b6d4'', currency = TRY,
          createdAt_P = 0\<rparr>,
         \<lparr>id_P = ''p2'', name_P = ''Ofis'', avatarColor = ''#ec4899'', currency = USD,
          createdAt_P = 0\<rparr>],
      transactions =
        [sampleTx ''t1'' Expense 400 Utilities ''Kira'' (DateString 2025 3 10) True (Some 10),
         (sampleTx ''t2'' Income 1000 Salary ''Maas'' (DateString 2025 3 5) False None)
           \<lparr>profileId := ''p2''\<rparr>,
         sampleTx ''t3'' Expense 75 Food ''Market'' (DateString 2024 10 14) False None],
      activeProfileId = Some ''p1'',
      lastCleanupMonth = None\<rparr>"

text \<open>The transactions of the examples below.\<close>

definition rent31 :: Transaction where
  "rent31 = sampleTx ''r1'' Expense 400 Utilities ''Kira'' (DateString 2025 1 31) True (Some 31)"

definition aidat15 :: Transaction where
  "aidat15 = sampleTx ''a15'' Expense 300 Utilities ''Aidat'' (DateString 2025 1 15) True (Some 15)"

definition fatura20 :: Transaction where
  "fatura20 = sampleTx ''f20'' Expense 120 Utilities ''Fatura'' (DateString 2025 4 20) False None"

definition june15 :: Transaction where
  "june15 = sampleTx ''j1'' Expense 250 Shopping ''Hediye'' (DateString 2025 6 15) False None"

definition june15r :: Transaction where
  "june15r = sampleTx ''j2'' Expense 250 Shopping ''Taksit'' (DateString 2025 6 15) True (Some 15)"

definition march1 :: Transaction where
  "march1 = sampleTx ''m1'' Expense 75 Food ''Market'' (DateString 2025 3 1) False None"

definition march5 :: Transaction where
  "march5 = sampleTx ''i1'' Income 1000 Salary ''Maas'' (DateString 2025 3 5) False None"

definition march10 :: Transaction where
  "march10 = sampleTx ''e1'' Expense 400 Food ''Market'' (DateString 2025 3 10) False None"

definition march31 :: Transaction where
  "march31 = sampleTx ''m31'' Expense 400 Utilities ''Kira'' (DateString 2025 3 31) False None"

definition kira1 :: Transaction where
  "kira1 = sampleTx ''k1'' Expense 400 Utilities ''Kira'' (DateString 2025 3 20) False None"

definition kira2 :: Transaction where
  "kira2 = sampleTx ''k2'' Expense 500 Other ''Kira'' (DateString 2025 3 1) False None"

definition apr11 :: Transaction where
  "apr11 = sampleTx ''x1'' Expense 120 Utilities ''Fatura'' (DateString 2025 4 11) False None"

definition may11 :: Transaction where
  "may11 = sampleTx ''x2'' Expense 90 Health ''Eczane'' (DateString 2025 5 11) False None"

definition oldRecurring :: Transaction where
  "oldRecurring = sampleTx ''o1'' Expense 300 Utilities ''Aidat'' (DateString 2024 10 15) True (Some 15)"

definition oldSingle :: Transaction where
  "oldSingle = sampleTx ''o2'' Expense 90 Food ''Market'' (DateString 2024 10 15) False None"

section \<open>Dates, evaluated\<close>

lemmas cal_defs =
  MakeDay_def DayFromYear_def MonthStart_def InLeapYear_def DaysInYear_def DateFromDay_def
  DayWithinYear_def YearFromDay_def MonthFromDay_def Let_def

text \<open>
  A date made from local year, month and day reads back as the date that
  MakeDay normalises to, in every time zone.
\<close>

lemma Day_LocalTime_newDate: "Day (LocalTime tz (newDate tz y m d)) = MakeDay (yr y) m d"
  by (simp add: Day_def LocalTime_def newDate_def UTC_def msPerDay_def)

lemma getters_newDate:
  "getFullYear tz (newDate tz y m d) = YearFromDay (MakeDay (yr y) m d)"
  "getMonth tz (newDate tz y m d) = MonthFromDay (MakeDay (yr y) m d)"
  "getDate tz (newDate tz y m d) = DateFromDay (MakeDay (yr y) m d)"
  by (simp_all add: getFullYear_def getMonth_def getDate_def Day_LocalTime_newDate)

lemma setHours0_newDate: "setHours0 tz (newDate tz y m d) = newDate tz y m d"
  by (simp add: setHours0_def Day_LocalTime_newDate) (simp add: newDate_def)

lemma newDate_less:
  "newDate tz y m d < newDate tz y' m' d' \<longleftrightarrow> MakeDay (yr y) m d < MakeDay (yr y') m' d'"
  by (simp add: newDate_def UTC_def msPerDay_def)

lemma ceilDays_newDate:
  "ceilDays (newDate tz y m d - newDate tz y' m' d')
     = MakeDay (yr y) m d - MakeDay (yr y') m' d'"
  by (simp add: ceilDays_def newDate_def UTC_def msPerDay_def)

lemma newDate_eqI:
  "MakeDay (yr y) m d = MakeDay (yr y') m' d' \<Longrightarrow> newDate tz y m d = newDate tz y' m' d'"
  by (simp add: newDate_def)

subsection \<open>Day numbers and calendar dates\<close>

text \<open>
  The year, month and day read from the day number of a calendar date are
  that date: YearFromDay finds the year whose days contain the day number,
  and the month table inverts MonthStart.
\<close>

lemma mod_100_imp_mod_4: "y mod 100 = 0 \<Longrightarrow> y mod 4 = (0::int)"
proof -
  assume "y mod 100 = 0"
  then have "100 dvd y" by (simp add: dvd_eq_mod_eq_0)
  moreover have "(4::int) dvd 100" by simp
  ultimately have "4 dvd y" by (rule dvd_trans [rotated])
  then show ?thesis by (simp add: dvd_eq_mod_eq_0)
qed

lemma mod_400_imp_mod_100: "y mod 400 = 0 \<Longrightarrow> y mod 100 = (0::int)"
proof -
  assume "y mod 400 = 0"
  then have "400 dvd y" by (simp add: dvd_eq_mod_eq_0)
  moreover have "(100::int) dvd 400" by simp
  ultimately have "100 dvd y" by (rule dvd_trans [rotated])
  then show ?thesis by (simp add: dvd_eq_mod_eq_0)
qed

lemma mod_shift: "(y - 1968) mod 4 = y mod (4::int)" "(y - 1900) mod 100 = y mod (100::int)"
  "(y - 1600) mod 400 = y mod (400::int)"
proof -
  have "(y - 1968) mod 4 = (y - 1968 mod 4) mod 4" by (rule mod_diff_right_eq [symmetric])
  then show "(y - 1968) mod 4 = y mod (4::int)" by simp
  have "(y - 1900) mod 100 = (y - 1900 mod 100) mod 100" by (rule mod_diff_right_eq [symmetric])
  then show "(y - 1900) mod 100 = y mod (100::int)" by simp
  have "(y - 1600) mod 400 = (y - 1600 mod 400) mod 400" by (rule mod_diff_right_eq [symmetric])
  then show "(y - 1600) mod 400 = y mod (400::int)" by simp
qed

lemma div_succ:
  assumes k: "(k::int) > 0"
  shows "(x + 1) div k = x div k + (if (x + 1) mod k = 0 then 1 else 0)"
proof -
  have x: "x = k * (x div k) + x mod k" by simp
  have r: "0 \<le> x mod k" "x mod k < k" using k by simp_all
  show ?thesis
  proof (cases "x mod k + 1 = k")
    case True
    have "k * (x div k + 1) = k * (x div k) + k" by (simp add: algebra_simps)
    with x True have e: "x + 1 = k * (x div k + 1) + 0" by linarith
    have "(x + 1) div k = x div k + 1" using int_div_pos_eq [OF e] k by simp
    moreover have "(x + 1) mod k = 0" using int_mod_pos_eq [OF e] k by simp
    ultimately show ?thesis by simp
  next
    case False
    have e: "x + 1 = k * (x div k) + (x mod k + 1)" using x by linarith
    have b: "0 \<le> x mod k + 1" "x mod k + 1 < k" using r False by simp_all
    have "(x + 1) div k = x div k" using int_div_pos_eq [OF e b] by simp
    moreover have "(x + 1) mod k = x mod k + 1" using int_mod_pos_eq [OF e b] by simp
    ultimately show ?thesis using r by simp
  qed
qed


lemma div_bounds: "(k::int) > 0 \<Longrightarrow> k * (x div k) \<le> x \<and> x < k * (x div k) + k"
proof -
  assume k: "k > 0"
  have "x = k * (x div k) + x mod k" by simp
  moreover have "0 \<le> x mod k" "x mod k < k" using k by simp_all
  ultimately show ?thesis by linarith
qed

lemma DayFromYear_bounds:
  "146097 * y \<le> 400 * DayFromYear y + 287811596"
  "400 * DayFromYear y + 287810501 \<le> 146097 * y"
proof -
  have a: "4 * ((y - 1969) div 4) \<le> y - 1969" "y - 1969 < 4 * ((y - 1969) div 4) + 4"
    using div_bounds [of 4 "y - 1969"] by simp_all
  have b: "100 * ((y - 1901) div 100) \<le> y - 1901" "y - 1901 < 100 * ((y - 1901) div 100) + 100"
    using div_bounds [of 100 "y - 1901"] by simp_all
  have c: "400 * ((y - 1601) div 400) \<le> y - 1601" "y - 1601 < 400 * ((y - 1601) div 400) + 400"
    using div_bounds [of 400 "y - 1601"] by simp_all
  show "146097 * y \<le> 400 * DayFromYear y + 287811596"
    unfolding DayFromYear_def using a b c by (simp add: algebra_simps)
  show "400 * DayFromYear y + 287810501 \<le> 146097 * y"
    unfolding DayFromYear_def using a b c by (simp add: algebra_simps)
qed

lemma DayFromYear_mono: "y < y' \<Longrightarrow> DayFromYear y < DayFromYear y'"
  using DayFromYear_bounds [of y] DayFromYear_bounds [of y'] by (simp add: algebra_simps)

lemma YearFromDay_unique:
  assumes "DayFromYear y \<le> d" "d < DayFromYear (y + 1)"
  shows "YearFromDay d = y"
proof -
  define e where "e = 1970 + (d * 400) div 146097"
  have q: "146097 * e \<le> d * 400 + 287811090"
    "d * 400 + 287811090 < 146097 * e + 146097"
    using div_bounds [of 146097 "d * 400"] unfolding e_def by (simp_all add: algebra_simps)
  have lo: "y - 1 \<le> e"
    using q DayFromYear_bounds [of y] assms(1) by (simp add: algebra_simps)
  have hi: "e \<le> y + 1"
    using q DayFromYear_bounds [of "y + 1"] assms(2) by (simp add: algebra_simps)
  have up: "\<And>z. DayFromYear z \<le> d \<Longrightarrow> z \<le> y"
  proof (rule ccontr)
    fix z assume z: "DayFromYear z \<le> d" "\<not> z \<le> y"
    then have "y + 1 \<le> z" by simp
    then have "DayFromYear (y + 1) \<le> DayFromYear z"
      using DayFromYear_mono [of "y + 1" z] by (cases "y + 1 = z") auto
    with z assms show False by simp
  qed
  have down: "\<And>z. d < DayFromYear z \<Longrightarrow> y < z"
  proof (rule ccontr)
    fix z assume z: "d < DayFromYear z" "\<not> y < z"
    then have "DayFromYear z \<le> DayFromYear y"
      using DayFromYear_mono [of z y] by (cases "z = y") auto
    with z assms show False by simp
  qed
  have Y: "YearFromDay d =
      (if DayFromYear (e + 1) \<le> d then e + 1 else if DayFromYear e \<le> d then e else e - 1)"
    by (simp add: YearFromDay_def Let_def e_def)
  show ?thesis
  proof (cases "DayFromYear (e + 1) \<le> d")
    case True
    from Y True have "YearFromDay d = e + 1" by simp
    moreover from up [OF True] lo have "e + 1 = y" by simp
    ultimately show ?thesis by simp
  next
    case False
    show ?thesis
    proof (cases "DayFromYear e \<le> d")
      case True
      from Y True False have "YearFromDay d = e" by simp
      moreover from up [OF True] down [of "e + 1"] False have "e = y" by simp
      ultimately show ?thesis by simp
    next
      case F2: False
      from Y False F2 have "YearFromDay d = e - 1" by simp
      moreover from down [of e] F2 hi have "e - 1 = y" by simp
      ultimately show ?thesis by simp
    qed
  qed
qed


text \<open>
  So YearFromDay is the year of the ECMAScript definition: the one whose first
  day is not after the day number and whose next year starts after it.
\<close>

lemma YearFromDay_contains:
  "DayFromYear (YearFromDay d) \<le> d \<and> d < DayFromYear (YearFromDay d + 1)"
proof -
  define e where "e = 1970 + (d * 400) div 146097"
  have q: "146097 * e \<le> d * 400 + 287811090"
    "d * 400 + 287811090 < 146097 * e + 146097"
    using div_bounds [of 146097 "d * 400"] unfolding e_def by (simp_all add: algebra_simps)
  have lo: "DayFromYear (e - 1) \<le> d"
    using q DayFromYear_bounds [of "e - 1"] by (simp add: algebra_simps)
  have hi: "d < DayFromYear (e + 2)"
    using q DayFromYear_bounds [of "e + 2"] by (simp add: algebra_simps)
  have Y: "YearFromDay d =
      (if DayFromYear (e + 1) \<le> d then e + 1 else if DayFromYear e \<le> d then e else e - 1)"
    by (simp add: YearFromDay_def Let_def e_def)
  show ?thesis
  proof (cases "DayFromYear (e + 1) \<le> d")
    case True
    with Y have "YearFromDay d = e + 1" by simp
    with True hi show ?thesis by (simp add: add.assoc)
  next
    case False
    show ?thesis
    proof (cases "DayFromYear e \<le> d")
      case True
      with Y False have "YearFromDay d = e" by simp
      with True False show ?thesis by simp
    next
      case F2: False
      with Y False have "YearFromDay d = e - 1" by simp
      with lo F2 show ?thesis by simp
    qed
  qed
qed

lemma DayFromYear_Suc: "DayFromYear (y + 1) = DayFromYear y + DaysInYear y"
proof -
  have a: "(y - 1968) div 4 = (y - 1969) div 4 + (if y mod 4 = 0 then 1 else 0)"
    using div_succ [of 4 "y - 1969"] mod_shift(1) [of y] by simp
  have b: "(y - 1900) div 100 = (y - 1901) div 100 + (if y mod 100 = 0 then 1 else 0)"
    using div_succ [of 100 "y - 1901"] mod_shift(2) [of y] by simp
  have c: "(y - 1600) div 400 = (y - 1601) div 400 + (if y mod 400 = 0 then 1 else 0)"
    using div_succ [of 400 "y - 1601"] mod_shift(3) [of y] by simp
  have s: "DayFromYear (y + 1) =
      365 * (y - 1969) + (y - 1968) div 4 - (y - 1900) div 100 + (y - 1600) div 400"
    by (simp add: DayFromYear_def)
  show ?thesis
  proof (cases "y mod 4 = 0")
    case False
    with mod_100_imp_mod_4 [of y] mod_400_imp_mod_100 [of y]
    have "y mod 100 \<noteq> 0" "y mod 400 \<noteq> 0" by auto
    with False show ?thesis
      unfolding s a b c by (simp add: DayFromYear_def DaysInYear_def)
  next
    case y4: True
    show ?thesis
    proof (cases "y mod 100 = 0")
      case False
      with mod_400_imp_mod_100 [of y] have "y mod 400 \<noteq> 0" by auto
      with y4 False show ?thesis
        unfolding s a b c by (simp add: DayFromYear_def DaysInYear_def)
    next
      case y100: True
      show ?thesis
      proof (cases "y mod 400 = 0")
        case False
        with y4 y100 show ?thesis
          unfolding s a b c by (simp add: DayFromYear_def DaysInYear_def)
      next
        case True
        with y4 y100 show ?thesis
          unfolding s a b c by (simp add: DayFromYear_def DaysInYear_def)
      qed
    qed
  qed
qed

lemma InLeapYear_cases: "InLeapYear y = 0 \<or> InLeapYear y = 1"
  by (simp add: InLeapYear_def)

lemma DaysInYear_InLeapYear: "DaysInYear y = 365 + InLeapYear y"
  by (simp add: InLeapYear_def DaysInYear_def)

lemma month_cases:
  "0 \<le> (mn::int) \<Longrightarrow> mn \<le> 11 \<Longrightarrow>
   mn = 0 \<or> mn = 1 \<or> mn = 2 \<or> mn = 3 \<or> mn = 4 \<or> mn = 5 \<or> mn = 6 \<or> mn = 7 \<or> mn = 8
   \<or> mn = 9 \<or> mn = 10 \<or> mn = 11"
  by arith

lemma MakeDay_month:
  "0 \<le> mn \<Longrightarrow> mn \<le> 11 \<Longrightarrow>
   MakeDay y mn dt = DayFromYear y + MonthStart (InLeapYear y) mn + dt - 1"
  by (simp add: MakeDay_def Let_def)

lemma MakeDay_12: "MakeDay y 12 dt = DayFromYear (y + 1) + dt - 1"
  by (simp add: MakeDay_def Let_def MonthStart_def)

lemma DaysInMonth_table:
  assumes "0 \<le> mn" "mn \<le> 11"
  shows "DaysInMonth y mn =
     (if mn = 1 then 28 + InLeapYear y
      else if mn = 3 \<or> mn = 5 \<or> mn = 8 \<or> mn = 10 then 30 else 31)"
  using month_cases [OF assms]
  by (elim disjE)
    (simp_all add: DaysInMonth_def MakeDay_month MakeDay_12 MonthStart_def DayFromYear_Suc
      DaysInYear_InLeapYear)

lemma civil_roundtrip:
  assumes "0 \<le> mn" "mn \<le> 11" "1 \<le> dt" "dt \<le> DaysInMonth y mn"
  shows "YearFromDay (MakeDay y mn dt) = y"
    and "MonthFromDay (MakeDay y mn dt) = mn"
    and "DateFromDay (MakeDay y mn dt) = dt"
proof -
  let ?l = "InLeapYear y"
  let ?w = "MonthStart ?l mn + dt - 1"
  have d: "MakeDay y mn dt = DayFromYear y + ?w"
    using assms by (simp add: MakeDay_month)
  have w: "MonthStart ?l mn \<le> ?w" "?w < MonthStart ?l mn + DaysInMonth y mn"
    using assms by simp_all
  have w365: "0 \<le> ?w \<and> ?w < 365 + ?l"
    using month_cases [OF assms(1,2)] w InLeapYear_cases [of y]
    by (elim disjE) (simp_all add: DaysInMonth_table MonthStart_def)
  have Y: "YearFromDay (MakeDay y mn dt) = y"
    unfolding d using w365
    by (intro YearFromDay_unique) (simp_all add: DayFromYear_Suc DaysInYear_InLeapYear)
  have W: "DayWithinYear (MakeDay y mn dt) = ?w"
    by (simp add: DayWithinYear_def Y) (simp add: d)
  have M: "MonthFromDay (MakeDay y mn dt) = mn"
    unfolding MonthFromDay_def Let_def W Y
    using month_cases [OF assms(1,2)] w InLeapYear_cases [of y]
    by (elim disjE) (simp_all add: DaysInMonth_table MonthStart_def)
  show "YearFromDay (MakeDay y mn dt) = y" by (rule Y)
  show "MonthFromDay (MakeDay y mn dt) = mn" by (rule M)
  show "DateFromDay (MakeDay y mn dt) = dt"
    by (simp add: DateFromDay_def W Y M)
qed

text \<open>
  At or east of UTC, by less than a day, midnight UTC of a date is a time of
  the same local date, so the local getters of a parsed date-only string
  return its own year, month and day.
\<close>

lemma Day_LocalTime_midnight:
  assumes "0 \<le> tz" "tz < 1440"
  shows "Day (LocalTime tz (n * msPerDay)) = n"
proof -
  have e: "n * 86400000 + tz * 60000 = 86400000 * n + tz * 60000" by simp
  have b: "0 \<le> tz * 60000" "tz * 60000 < 86400000" using assms by simp_all
  show ?thesis
    unfolding Day_def LocalTime_def msPerDay_def msPerMinute_def
    using int_div_pos_eq [OF e b] by simp
qed

lemma parseDate_Some:
  "parseDate s = Some t \<longleftrightarrow>
     validDateString s \<and> t = MakeDay (ds_year s) (ds_month s - 1) (ds_day s) * msPerDay"
  by (auto simp: parseDate_def)

lemma getters_parseDate:
  assumes "0 \<le> tz" "tz < 1440" "parseDate s = Some t"
  shows "getFullYear tz t = ds_year s" "getMonth tz t = ds_month s - 1"
    "getDate tz t = ds_day s"
proof -
  from assms(3) have v: "validDateString s"
    and t: "t = MakeDay (ds_year s) (ds_month s - 1) (ds_day s) * msPerDay"
    by (simp_all add: parseDate_Some)
  from v have r: "0 \<le> ds_month s - 1" "ds_month s - 1 \<le> 11" "1 \<le> ds_day s"
    "ds_day s \<le> DaysInMonth (ds_year s) (ds_month s - 1)"
    by (simp_all add: validDateString_def)
  show "getFullYear tz t = ds_year s" "getMonth tz t = ds_month s - 1"
    "getDate tz t = ds_day s"
    unfolding getFullYear_def getMonth_def getDate_def t
      Day_LocalTime_midnight [OF assms(1,2)]
    by (simp_all add: civil_roundtrip [OF r])
qed

section \<open>Store actions\<close>

lemmas date_defs =
  getFullYear_def getMonth_def getDate_def newDate_def yr_def setHours0_def setDate_def
  UTC_def LocalTime_def Day_def TimeWithinDay_def MakeDay_def DayFromYear_def
  MonthStart_def InLeapYear_def DaysInYear_def DateFromDay_def DayWithinYear_def
  YearFromDay_def MonthFromDay_def msPerDay_def msPerMinute_def ceilDays_def
  parseDate_def validDateString_def DaysInMonth_def Let_def

text \<open>
  C9. \<^verbatim>\<open>deleteProfile(id)\<close> is one replacement of the state: the profiles
  are those whose id differs, the transactions those whose profileId differs
  (both in their old order, so every other profile and transaction is kept
  as it was), no transaction of the deleted profile remains, the active
  selection is cleared exactly when it was the deleted profile and is
  otherwise unchanged, and the cleanup marker is untouched.
\<close>

theorem deleteProfile_cascade:
  "profiles (deleteProfile i s) = filter (\<lambda>p. id_P p \<noteq> i) (profiles s)
   \<and> transactions (deleteProfile i s) = filter (\<lambda>t. profileId t \<noteq> i) (transactions s)
   \<and> set (profiles (deleteProfile i s)) = {p \<in> set (profiles s). id_P p \<noteq> i}
   \<and> set (transactions (deleteProfile i s)) = {t \<in> set (transactions s). profileId t \<noteq> i}
   \<and> length (filter (\<lambda>t. profileId t = i) (transactions (deleteProfile i s))) = 0
   \<and> (activeProfileId s = Some i \<longrightarrow> activeProfileId (deleteProfile i s) = None)
   \<and> (activeProfileId s \<noteq> Some i \<longrightarrow> activeProfileId (deleteProfile i s) = activeProfileId s)
   \<and> lastCleanupMonth (deleteProfile i s) = lastCleanupMonth s"
  by (auto simp: deleteProfile_def)

theorem deleteProfile_cascade_witness:
  "activeProfileId sampleStore = Some ''p1''
   \<and> activeProfileId (deleteProfile ''p1'' sampleStore) = None
   \<and> map id_P (profiles (deleteProfile ''p1'' sampleStore)) = [''p2'']
   \<and> map id_T (transactions (deleteProfile ''p1'' sampleStore)) = [''t2'']
   \<and> activeProfileId sampleStore \<noteq> Some ''p2''
   \<and> activeProfileId (deleteProfile ''p2'' sampleStore) = Some ''p1''
   \<and> map id_T (transactions (deleteProfile ''p2'' sampleStore)) = [''t1'', ''t3'']"
  using deleteProfile_cascade [of "''p1''" sampleStore]
    deleteProfile_cascade [of "''p2''" sampleStore]
  by (simp add: sampleStore_def sampleTx_def)

text \<open>
  C10. \<^verbatim>\<open>addTransaction\<close> called with \<^verbatim>\<open>isRecurring\<close> false or omitted
  stores the new transaction with \<^verbatim>\<open>isRecurring\<close> false and
  \<^verbatim>\<open>recurringDay\<close> undefined, whatever recurring day is passed; the new
  transaction is the head of the list, the old transactions follow it
  unchanged, and the profiles, the active profile and the cleanup marker are
  unchanged.
\<close>

theorem addTransaction_not_recurring:
  "isRec = None \<or> isRec = Some False \<Longrightarrow>
   transactions (addTransaction newId now pid ty amt cat ttl descr dt isRec recDay s) =
     \<lparr>id_T = newId, profileId = pid, type_T = ty, amount = amt, category = cat,
      title = ttl, description = descr,
      date = (case dt of Some d \<Rightarrow> d | None \<Rightarrow> isoDateOf now),
      createdAt_T = now, isRecurring = Some False, recurringDay = None\<rparr> # transactions s
   \<and> profiles (addTransaction newId now pid ty amt cat ttl descr dt isRec recDay s) = profiles s
   \<and> activeProfileId (addTransaction newId now pid ty amt cat ttl descr dt isRec recDay s)
       = activeProfileId s
   \<and> lastCleanupMonth (addTransaction newId now pid ty amt cat ttl descr dt isRec recDay s)
       = lastCleanupMonth s"
  by (auto simp: addTransaction_def)

theorem addTransaction_not_recurring_witness:
  "map recurringDay
     (transactions (addTransaction ''t9'' 0 ''p1'' Expense 50 Food ''Simit'' None
        (Some (DateString 2025 3 5)) (Some False) (Some 15) sampleStore))
     = [None, Some 10, None, None]
   \<and> map id_T
     (transactions (addTransaction ''t9'' 0 ''p1'' Expense 50 Food ''Simit'' None
        (Some (DateString 2025 3 5)) None (Some 15) sampleStore))
     = [''t9'', ''t1'', ''t2'', ''t3'']"
  using addTransaction_not_recurring [of "Some False" "''t9''" 0 "''p1''" Expense 50 Food
      "''Simit''" None "Some (DateString 2025 3 5)" "Some 15" sampleStore]
    addTransaction_not_recurring [of None "''t9''" 0 "''p1''" Expense 50 Food
      "''Simit''" None "Some (DateString 2025 3 5)" "Some 15" sampleStore]
  by (simp add: sampleStore_def sampleTx_def)

subsection \<open>The recurrence invariant\<close>

lemma recurringInvariant_spread:
  "keepsRecurrence d \<Longrightarrow> recurringInvariant t \<Longrightarrow> recurringInvariant (spread t d)"
  by (auto simp: keepsRecurrence_def recurringInvariant_def validRecurrence_def spread_def
      split: option.splits)

lemma recurringInvariant_addTransaction:
  "validRecurrence isRec recDay \<or> isRec \<noteq> Some True \<Longrightarrow>
   list_all recurringInvariant (transactions s) \<Longrightarrow>
   list_all recurringInvariant
     (transactions (addTransaction newId now pid ty amt cat ttl descr dt isRec recDay s))"
  by (auto simp: addTransaction_def recurringInvariant_def validRecurrence_def
      split: option.splits)

lemma recurringInvariant_updateTransaction:
  "keepsRecurrence d \<Longrightarrow> list_all recurringInvariant (transactions s) \<Longrightarrow>
   list_all recurringInvariant (transactions (updateTransaction i d s))"
  by (auto simp: updateTransaction_def list_all_iff recurringInvariant_spread)

text \<open>
  C7, as the code has it. The store does not validate what it is given. The
  invariant (a transaction recurs exactly when its recurring day is defined
  and from 1 to 31) holds in the initial state and is kept by
  \<^verbatim>\<open>addTransaction\<close> when the call passes \<^verbatim>\<open>isRecurring\<close> false or
  omitted, or \<^verbatim>\<open>isRecurring\<close> true with a recurring day from 1 to 31, and
  by \<^verbatim>\<open>updateTransaction\<close> when the patch leaves both recurrence fields
  alone or sets both to such a pair.
\<close>

theorem recurring_invariant_kept:
  "list_all recurringInvariant (transactions initialState)
   \<and> (list_all recurringInvariant (transactions s) \<longrightarrow>
      (validRecurrence isRec recDay \<or> isRec \<noteq> Some True \<longrightarrow>
         list_all recurringInvariant
           (transactions (addTransaction newId now pid ty amt cat ttl descr dt isRec recDay s)))
      \<and> (keepsRecurrence d \<longrightarrow>
         list_all recurringInvariant (transactions (updateTransaction i d s))))"
  using recurringInvariant_addTransaction recurringInvariant_updateTransaction
  by (simp add: initialState_def)

theorem recurring_invariant_kept_witness:
  "list_all recurringInvariant (transactions sampleStore)
   \<and> validRecurrence (Some True) (Some 15)
   \<and> keepsRecurrence noPatch
   \<and> list_all recurringInvariant
       (transactions (addTransaction ''t9'' 0 ''p1'' Expense 50 Food ''Simit'' None None
          (Some True) (Some 15) sampleStore))
   \<and> list_all recurringInvariant
       (transactions (updateTransaction ''t1'' (noPatch\<lparr>amount_D := Some 450\<rparr>) sampleStore))"
proof -
  have h: "list_all recurringInvariant (transactions sampleStore)"
    by (simp add: sampleStore_def sampleTx_def recurringInvariant_def)
  have v: "validRecurrence (Some True) (Some 15)"
    by (simp add: validRecurrence_def)
  have k: "keepsRecurrence (noPatch\<lparr>amount_D := Some 450\<rparr>)" "keepsRecurrence noPatch"
    by (simp_all add: keepsRecurrence_def noPatch_def)
  from recurring_invariant_kept [of sampleStore "Some True" "Some 15" "''t9''" 0 "''p1''"
      Expense 50 Food "''Simit''" None None "noPatch\<lparr>amount_D := Some 450\<rparr>" "''t1''"] h v k
  show ?thesis by blast
qed

text \<open>
  A recurring transaction added without a recurring day, and a stored
  recurring transaction whose \<^verbatim>\<open>isRecurring\<close> alone is patched to false,
  both break the invariant.
\<close>

theorem recurring_invariant_counterexample:
  "\<not> list_all recurringInvariant
       (transactions (addTransaction ''t1'' 0 ''p1'' Expense 400 Utilities ''Kira'' None None
          (Some True) None initialState))
   \<and> \<not> list_all recurringInvariant
       (transactions (updateTransaction ''t1'' (noPatch\<lparr>isRecurring_D := Some (Some False)\<rparr>)
          (addTransaction ''t1'' 0 ''p1'' Expense 400 Utilities ''Kira'' None None
             (Some True) (Some 10) initialState)))"
  by (simp add: addTransaction_def updateTransaction_def initialState_def spread_def
      noPatch_def recurringInvariant_def)

section \<open>Monthly cleanup, proved\<close>

text \<open>
  C4. \<^verbatim>\<open>checkAndPerformMonthlyCleanup\<close> computes the key of the current
  month; when the key differs from the marker it prunes and sets the marker
  to the key, otherwise it returns the state as it is. A second call at an
  instant of the same calendar month (same local year and month) therefore
  changes nothing.
\<close>

theorem checkAndPerformMonthlyCleanup_idempotent:
  "getFullYear tz now2 = getFullYear tz now1 \<Longrightarrow> getMonth tz now2 = getMonth tz now1 \<Longrightarrow>
   checkAndPerformMonthlyCleanup tz now1 s =
     (if lastCleanupMonth s \<noteq> Some (currentMonthKey tz now1)
      then (cleanupNonRecurringTransactions tz now1 s)
             \<lparr>lastCleanupMonth := Some (currentMonthKey tz now1)\<rparr>
      else s)
   \<and> checkAndPerformMonthlyCleanup tz now2 (checkAndPerformMonthlyCleanup tz now1 s) =
       checkAndPerformMonthlyCleanup tz now1 s"
  by (auto simp: checkAndPerformMonthlyCleanup_def currentMonthKey_def Let_def
      cleanupNonRecurringTransactions_def)

lemma currentMonthKey_example:
  "currentMonthKey 180 (newDate 180 2025 2 14) = ''2025-03''"
  by (simp add: currentMonthKey_def numberToString_def padStart2_def date_defs)

theorem checkAndPerformMonthlyCleanup_idempotent_witness:
  "getFullYear 180 (newDate 180 2025 2 20) = getFullYear 180 (newDate 180 2025 2 5)
   \<and> getMonth 180 (newDate 180 2025 2 20) = getMonth 180 (newDate 180 2025 2 5)
   \<and> checkAndPerformMonthlyCleanup 180 (newDate 180 2025 2 20)
        (checkAndPerformMonthlyCleanup 180 (newDate 180 2025 2 5) sampleStore)
      = checkAndPerformMonthlyCleanup 180 (newDate 180 2025 2 5) sampleStore
   \<and> lastCleanupMonth (checkAndPerformMonthlyCleanup 180 (newDate 180 2025 2 5) sampleStore)
      = Some ''2025-03''"
proof -
  have y: "getFullYear 180 (newDate 180 2025 2 20) = getFullYear 180 (newDate 180 2025 2 5)"
    by (simp add: getters_newDate yr_def cal_defs)
  have m: "getMonth 180 (newDate 180 2025 2 20) = getMonth 180 (newDate 180 2025 2 5)"
    by (simp add: getters_newDate yr_def cal_defs)
  have k: "currentMonthKey 180 (newDate 180 2025 2 5) = ''2025-03''"
    by (simp add: currentMonthKey_def numberToString_def padStart2_def date_defs)
  have c: "lastCleanupMonth
      (checkAndPerformMonthlyCleanup 180 (newDate 180 2025 2 5) sampleStore) = Some ''2025-03''"
    unfolding checkAndPerformMonthlyCleanup_def k by (simp add: sampleStore_def)
  from checkAndPerformMonthlyCleanup_idempotent [OF y m, of sampleStore] y m c
  show ?thesis by blast
qed

text \<open>
  The example of the retention policy, in Istanbul on 15 March 2025: of a
  recurring and a one-off transaction, both dated 15 October 2024, the
  cleanup keeps the recurring one and removes the other.
\<close>

lemma cleanup_example:
  "transactions (cleanupNonRecurringTransactions 180 (newDate 180 2025 2 15)
     (initialState\<lparr>transactions := [oldRecurring, oldSingle]\<rparr>)) = [oldRecurring]"
  by (simp add: cleanupNonRecurringTransactions_def isCurrentMonth_def initialState_def
      oldRecurring_def oldSingle_def sampleTx_def date_defs)

text \<open>
  At or east of UTC the cleanup keeps exactly the recurring transactions and
  those whose date string names a day of the current month.
\<close>

lemma isCurrentMonth_east_of_UTC:
  assumes "0 \<le> tz" "tz < 1440"
  shows "isCurrentMonth tz now t \<longleftrightarrow>
     validDateString (date t) \<and> ds_month (date t) - 1 = getMonth tz now \<and>
     ds_year (date t) = getFullYear tz now"
proof (cases "parseDate (date t)")
  case None
  then show ?thesis by (simp add: isCurrentMonth_def parseDate_def split: if_splits)
next
  case (Some td)
  then have v: "validDateString (date t)" by (simp add: parseDate_Some)
  from getters_parseDate [OF assms Some] v show ?thesis
    by (simp add: isCurrentMonth_def Some Let_def)
qed

lemma cleanup_east_of_UTC:
  assumes "0 \<le> tz" "tz < 1440"
  shows "t \<in> set (transactions (cleanupNonRecurringTransactions tz now s)) \<longleftrightarrow>
     t \<in> set (transactions s) \<and>
     (isRecurring t = Some True \<or>
      (validDateString (date t) \<and> ds_month (date t) - 1 = getMonth tz now \<and>
       ds_year (date t) = getFullYear tz now))"
  by (auto simp: cleanupNonRecurringTransactions_def isCurrentMonth_east_of_UTC [OF assms])

text \<open>
  C3. The cleanup reads a transaction's date-only string as midnight UTC and
  compares its month and year in local time. West of UTC that instant is
  still the evening before: in a zone five hours behind UTC, on 15 March
  2025, the one-off transaction dated 2025-03-01 is taken for a transaction
  of February and removed, although its date lies in the current month.
\<close>

theorem cleanup_removes_first_of_month:
  "getFullYear (-300) (newDate (-300) 2025 2 15) = 2025
   \<and> getMonth (-300) (newDate (-300) 2025 2 15) = 2
   \<and> date march1 = DateString 2025 3 1
   \<and> transactions (cleanupNonRecurringTransactions (-300) (newDate (-300) 2025 2 15)
        (initialState\<lparr>transactions := [march1]\<rparr>)) = []"
  by (simp add: cleanupNonRecurringTransactions_def isCurrentMonth_def initialState_def
      march1_def sampleTx_def date_defs)

section \<open>Calendar view, proved\<close>

lemma dayTransactions_fold:
  "dayTransactions (fold (dayStep tz cy cm) txs d) =
     dayTransactions d @
     filter (\<lambda>t. isMatch tz cy cm (day_of d) t \<or> isRecurringMatch tz cy cm (day_of d) t) txs
   \<and> day_of (fold (dayStep tz cy cm) txs d) = day_of d"
  by (induction txs arbitrary: d) (auto simp: dayStep_def)

text \<open>The transactions shown on a day are those that pass the membership test.\<close>

lemma dayTransactions_calendarDay:
  "dayTransactions (calendarDay tz cy cm day txs) =
     filter (\<lambda>t. isMatch tz cy cm day t \<or> isRecurringMatch tz cy cm day t) txs"
  by (simp add: calendarDay_def dayTransactions_fold)

text \<open>
  The example of the forward projection, in Istanbul: the recurring
  transaction dated 2025-06-15 with recurring day 15 passes the test on day
  15 of exactly the months from June 2025 on, and on no day of March 2025.
\<close>

lemma recurring_projection_example:
  "(isMatch 180 cy cm 15 june15r \<or> isRecurringMatch 180 cy cm 15 june15r)
     = (cy > 2025 \<or> (cy = 2025 \<and> cm \<ge> 5))
   \<and> \<not> isMatch 180 2025 2 day june15r \<and> \<not> isRecurringMatch 180 2025 2 day june15r"
  by (auto simp: isMatch_def isRecurringMatch_def june15r_def sampleTx_def date_defs)

text \<open>
  At or east of UTC the membership test is the one on dates: the date string
  names the displayed day, or the transaction recurs on that day of the
  month and was dated in the displayed month or before.
\<close>

lemma calendar_east_of_UTC:
  assumes "0 \<le> tz" "tz < 1440" "validDateString (date t)"
  shows "(isMatch tz cy cm day t \<or> isRecurringMatch tz cy cm day t) \<longleftrightarrow>
     (ds_year (date t) = cy \<and> ds_month (date t) - 1 = cm \<and> ds_day (date t) = day)
     \<or> (isRecurring t = Some True \<and> recurringDay t = Some day \<and>
        (cy > ds_year (date t) \<or> (cy = ds_year (date t) \<and> cm \<ge> ds_month (date t) - 1)))"
proof -
  from assms(3) obtain td where p: "parseDate (date t) = Some td"
    by (simp add: parseDate_def)
  from getters_parseDate [OF assms(1,2) p] p show ?thesis
    by (auto simp: isMatch_def isRecurringMatch_def)
qed

text \<open>
  C2. The calendar reads a transaction's date-only string as midnight UTC
  and takes its day, month and year in local time. In a zone five hours
  behind UTC the one-off transaction dated 2025-06-15 is therefore not shown
  on 15 June 2025, the day it falls on, but on 14 June.
\<close>

theorem calendar_day_shift:
  "date june15 = DateString 2025 6 15
   \<and> dayTransactions (calendarDay (-300) 2025 5 15 [june15]) = []
   \<and> dayTransactions (calendarDay (-300) 2025 5 14 [june15]) = [june15]"
  by (simp add: dayTransactions_calendarDay isMatch_def isRecurringMatch_def june15_def
      sampleTx_def date_defs)

section \<open>Upcoming payments, proved\<close>

lemma nextDueDate_april: "nextDueDate tz (newDate tz 2025 3 10) 31 = newDate tz 2025 4 1"
proof -
  have gy: "getFullYear tz (newDate tz 2025 3 10) = 2025"
    and gm: "getMonth tz (newDate tz 2025 3 10) = 3"
    by (simp_all add: getters_newDate yr_def cal_defs)
  have d0: "newDate tz 2025 3 31 = newDate tz 2025 4 1"
    by (rule newDate_eqI) (simp add: yr_def cal_defs)
  have nl: "\<not> newDate tz 2025 4 1 < newDate tz 2025 3 10"
    by (simp add: newDate_less yr_def cal_defs)
  have gy1: "getFullYear tz (newDate tz 2025 4 1) = 2025"
    and gm1: "getMonth tz (newDate tz 2025 4 1) = 4"
    by (simp_all add: getters_newDate yr_def cal_defs)
  have last: "getDate tz (newDate tz 2025 5 0) = 31"
    by (simp add: getters_newDate yr_def cal_defs)
  show ?thesis
    unfolding nextDueDate_def Let_def gy gm d0 by (simp add: nl gy1 gm1 last)
qed

lemma nextDueDate_february: "nextDueDate tz (newDate tz 2025 1 10) 31 = newDate tz 2025 2 3"
proof -
  have gy: "getFullYear tz (newDate tz 2025 1 10) = 2025"
    and gm: "getMonth tz (newDate tz 2025 1 10) = 1"
    by (simp_all add: getters_newDate yr_def cal_defs)
  have d0: "newDate tz 2025 1 31 = newDate tz 2025 2 3"
    by (rule newDate_eqI) (simp add: yr_def cal_defs)
  have nl: "\<not> newDate tz 2025 2 3 < newDate tz 2025 1 10"
    by (simp add: newDate_less yr_def cal_defs)
  have gy1: "getFullYear tz (newDate tz 2025 2 3) = 2025"
    and gm1: "getMonth tz (newDate tz 2025 2 3) = 2"
    by (simp_all add: getters_newDate yr_def cal_defs)
  have last: "getDate tz (newDate tz 2025 3 0) = 31"
    by (simp add: getters_newDate yr_def cal_defs)
  show ?thesis
    unfolding nextDueDate_def Let_def gy gm d0 by (simp add: nl gy1 gm1 last)
qed

lemma nextDueDate_day15: "nextDueDate tz (newDate tz 2025 3 10) 15 = newDate tz 2025 3 15"
proof -
  have gy: "getFullYear tz (newDate tz 2025 3 10) = 2025"
    and gm: "getMonth tz (newDate tz 2025 3 10) = 3"
    by (simp_all add: getters_newDate yr_def cal_defs)
  have nl: "\<not> newDate tz 2025 3 15 < newDate tz 2025 3 10"
    by (simp add: newDate_less yr_def cal_defs)
  have gy1: "getFullYear tz (newDate tz 2025 3 15) = 2025"
    and gm1: "getMonth tz (newDate tz 2025 3 15) = 3"
    by (simp_all add: getters_newDate yr_def cal_defs)
  have last: "getDate tz (newDate tz 2025 4 0) = 30"
    by (simp add: getters_newDate yr_def cal_defs)
  show ?thesis
    unfolding nextDueDate_def Let_def gy gm by (simp add: nl gy1 gm1 last)
qed

lemma upcomingItems_single_recurring:
  "isRecurring t = Some True \<Longrightarrow> recurringDay t = Some d \<Longrightarrow> d \<noteq> 0 \<Longrightarrow>
   upcomingItems tz now [t] = recurringItem tz (setHours0 tz now) t"
  by (simp add: upcomingItems_def recurringTransactions_def futureTransactions_def
      recurringItem_def Let_def)

text \<open>
  C1. \<^verbatim>\<open>new Date(year, month, 31)\<close> in a month of fewer days is already a
  date of the next month, so the test "recurring day greater than the last
  day of the due date's month" compares 31 with the 31 days of May or March
  and never clamps. For a transaction with recurring day 31, in every time
  zone: on 10 April 2025 the due date is 1 May (not 30 April), on
  10 February 2025 it is 3 March (not 28 February); both are listed with 21
  days left.
\<close>

theorem nextDueDate_not_clamped:
  "upcomingItems tz (newDate tz 2025 3 10) [rent31]
     = [\<lparr>transaction = rent31, dueDate = newDate tz 2025 4 1, daysLeft = 21\<rparr>]
   \<and> getMonth tz (newDate tz 2025 4 1) = 4 \<and> getDate tz (newDate tz 2025 4 1) = 1
   \<and> upcomingItems tz (newDate tz 2025 1 10) [rent31]
     = [\<lparr>transaction = rent31, dueDate = newDate tz 2025 2 3, daysLeft = 21\<rparr>]
   \<and> getMonth tz (newDate tz 2025 2 3) = 2 \<and> getDate tz (newDate tz 2025 2 3) = 3"
proof -
  have r: "isRecurring rent31 = Some True" "recurringDay rent31 = Some 31"
    by (simp_all add: rent31_def sampleTx_def)
  have a: "recurringDaysLeft tz (newDate tz 2025 3 10) 31 = 21"
    unfolding recurringDaysLeft_def nextDueDate_april
    by (simp add: ceilDays_newDate yr_def cal_defs)
  have f: "recurringDaysLeft tz (newDate tz 2025 1 10) 31 = 21"
    unfolding recurringDaysLeft_def nextDueDate_february
    by (simp add: ceilDays_newDate yr_def cal_defs)
  have 1: "upcomingItems tz (newDate tz 2025 3 10) [rent31]
     = [\<lparr>transaction = rent31, dueDate = newDate tz 2025 4 1, daysLeft = 21\<rparr>]"
    by (simp add: upcomingItems_single_recurring [OF r] setHours0_newDate recurringItem_def
        r a nextDueDate_april)
  have 2: "upcomingItems tz (newDate tz 2025 1 10) [rent31]
     = [\<lparr>transaction = rent31, dueDate = newDate tz 2025 2 3, daysLeft = 21\<rparr>]"
    by (simp add: upcomingItems_single_recurring [OF r] setHours0_newDate recurringItem_def
        r f nextDueDate_february)
  have 3: "getMonth tz (newDate tz 2025 4 1) = 4" "getDate tz (newDate tz 2025 4 1) = 1"
    "getMonth tz (newDate tz 2025 2 3) = 2" "getDate tz (newDate tz 2025 2 3) = 3"
    by (simp_all add: getters_newDate yr_def cal_defs)
  from 1 2 3 show ?thesis by simp
qed

subsection \<open>Membership and order of the list\<close>

lemma in_recurringItem:
  "it \<in> set (recurringItem tz today t) \<longleftrightarrow>
     (\<exists>d. recurringDay t = Some d \<and> recurringDaysLeft tz today d \<le> 30 \<and>
          0 \<le> recurringDaysLeft tz today d \<and>
          it = \<lparr>transaction = t, dueDate = nextDueDate tz today d,
                daysLeft = recurringDaysLeft tz today d\<rparr>)"
  by (cases "recurringDay t") (auto simp: recurringItem_def Let_def)

lemma in_futureItem:
  "it \<in> set (futureItem tz today t) \<longleftrightarrow>
     (\<exists>tDate. parseDate (date t) = Some tDate \<and>
          it = \<lparr>transaction = t, dueDate = setHours0 tz tDate,
                daysLeft = ceilDays (setHours0 tz tDate - today)\<rparr>)"
  by (cases "parseDate (date t)") (auto simp: futureItem_def)

lemma in_futureTransactions:
  "t \<in> set (futureTransactions tz today txs) \<longleftrightarrow>
     t \<in> set txs \<and> isRecurring t \<noteq> Some True \<and>
     (\<exists>dl. futureDaysLeft tz today t = Some dl \<and> 0 < dl \<and> dl \<le> 30)"
  by (auto simp: futureTransactions_def split: option.splits)

lemma in_recurringTransactions:
  "t \<in> set (recurringTransactions txs) \<longleftrightarrow>
     t \<in> set txs \<and> isRecurring t = Some True \<and> (\<exists>d. recurringDay t = Some d \<and> d \<noteq> 0)"
  by (auto simp: recurringTransactions_def)

lemma set_upcomingItems:
  "set (upcomingItems tz now txs) =
     (\<Union>t\<in>set (recurringTransactions txs). set (recurringItem tz (setHours0 tz now) t))
     \<union> (\<Union>t\<in>set (futureTransactions tz (setHours0 tz now) txs).
          set (futureItem tz (setHours0 tz now) t))"
  by (simp add: upcomingItems_def Let_def)

lemma transaction_upcoming:
  assumes "it \<in> set (upcomingItems tz now txs)"
  shows "(transaction it \<in> set (recurringTransactions txs) \<and>
          it \<in> set (recurringItem tz (setHours0 tz now) (transaction it)))
         \<or> (transaction it \<in> set (futureTransactions tz (setHours0 tz now) txs) \<and>
            it \<in> set (futureItem tz (setHours0 tz now) (transaction it)))"
proof -
  from assms consider
    (r) t' where "t' \<in> set (recurringTransactions txs)"
      "it \<in> set (recurringItem tz (setHours0 tz now) t')"
    | (f) t' where "t' \<in> set (futureTransactions tz (setHours0 tz now) txs)"
      "it \<in> set (futureItem tz (setHours0 tz now) t')"
    by (auto simp: set_upcomingItems)
  then show ?thesis
  proof cases
    case r
    from r(2) have "transaction it = t'" by (auto simp: in_recurringItem)
    with r show ?thesis by simp
  next
    case f
    from f(2) have "transaction it = t'" by (auto simp: in_futureItem)
    with f show ?thesis by simp
  qed
qed

lemma upcoming_recurring:
  assumes "isRecurring t = Some True" "recurringDay t = Some d" "d \<noteq> 0"
  shows "(\<exists>it\<in>set (upcomingItems tz now txs). transaction it = t) \<longleftrightarrow>
         t \<in> set txs \<and> 0 \<le> recurringDaysLeft tz (setHours0 tz now) d \<and>
         recurringDaysLeft tz (setHours0 tz now) d \<le> 30"
proof
  assume "\<exists>it\<in>set (upcomingItems tz now txs). transaction it = t"
  then obtain it where it: "it \<in> set (upcomingItems tz now txs)" "transaction it = t"
    by blast
  from transaction_upcoming [OF it(1)] it(2) assms(1)
  have "t \<in> set (recurringTransactions txs)"
    and "it \<in> set (recurringItem tz (setHours0 tz now) t)"
    by (auto simp: in_futureTransactions)
  with assms(2)
  show "t \<in> set txs \<and> 0 \<le> recurringDaysLeft tz (setHours0 tz now) d \<and>
        recurringDaysLeft tz (setHours0 tz now) d \<le> 30"
    by (auto simp: in_recurringTransactions in_recurringItem)
next
  assume a: "t \<in> set txs \<and> 0 \<le> recurringDaysLeft tz (setHours0 tz now) d \<and>
             recurringDaysLeft tz (setHours0 tz now) d \<le> 30"
  let ?it = "\<lparr>transaction = t, dueDate = nextDueDate tz (setHours0 tz now) d,
              daysLeft = recurringDaysLeft tz (setHours0 tz now) d\<rparr>"
  from a assms have "t \<in> set (recurringTransactions txs)"
    by (simp add: in_recurringTransactions)
  moreover from a assms have "?it \<in> set (recurringItem tz (setHours0 tz now) t)"
    by (simp add: in_recurringItem)
  ultimately have "?it \<in> set (upcomingItems tz now txs)"
    by (auto simp: set_upcomingItems)
  moreover have "transaction ?it = t" by simp
  ultimately show "\<exists>it\<in>set (upcomingItems tz now txs). transaction it = t"
    by blast
qed

lemma upcoming_future:
  assumes "isRecurring t \<noteq> Some True"
  shows "(\<exists>it\<in>set (upcomingItems tz now txs). transaction it = t) \<longleftrightarrow>
         t \<in> set txs \<and>
         (\<exists>dl. futureDaysLeft tz (setHours0 tz now) t = Some dl \<and> 0 < dl \<and> dl \<le> 30)"
proof
  assume "\<exists>it\<in>set (upcomingItems tz now txs). transaction it = t"
  then obtain it where it: "it \<in> set (upcomingItems tz now txs)" "transaction it = t"
    by blast
  from transaction_upcoming [OF it(1)] it(2) assms
  have "t \<in> set (futureTransactions tz (setHours0 tz now) txs)"
    by (auto simp: in_recurringTransactions)
  then show "t \<in> set txs \<and>
      (\<exists>dl. futureDaysLeft tz (setHours0 tz now) t = Some dl \<and> 0 < dl \<and> dl \<le> 30)"
    by (simp add: in_futureTransactions)
next
  assume a: "t \<in> set txs \<and>
      (\<exists>dl. futureDaysLeft tz (setHours0 tz now) t = Some dl \<and> 0 < dl \<and> dl \<le> 30)"
  then obtain tDate where p: "parseDate (date t) = Some tDate"
    by (cases "parseDate (date t)") (auto simp: futureDaysLeft_def)
  let ?it = "\<lparr>transaction = t, dueDate = setHours0 tz tDate,
              daysLeft = ceilDays (setHours0 tz tDate - setHours0 tz now)\<rparr>"
  from a assms have "t \<in> set (futureTransactions tz (setHours0 tz now) txs)"
    by (simp add: in_futureTransactions)
  moreover from p have "?it \<in> set (futureItem tz (setHours0 tz now) t)"
    by (simp add: in_futureItem)
  ultimately have "?it \<in> set (upcomingItems tz now txs)"
    by (auto simp: set_upcomingItems)
  moreover have "transaction ?it = t" by simp
  ultimately show "\<exists>it\<in>set (upcomingItems tz now txs). transaction it = t"
    by blast
qed

lemma recurringItem_daysLeft:
  "it \<in> set (recurringItem tz today t) \<Longrightarrow>
   \<exists>d. recurringDay t = Some d \<and> daysLeft it = recurringDaysLeft tz today d"
  by (auto simp: in_recurringItem)

lemma futureItem_daysLeft:
  "it \<in> set (futureItem tz today t) \<Longrightarrow> futureDaysLeft tz today t = Some (daysLeft it)"
  by (auto simp: in_futureItem futureDaysLeft_def)

lemma upcoming_daysLeft:
  assumes "it \<in> set (upcomingItems tz now txs)"
  shows "if isRecurring (transaction it) = Some True
         then \<exists>d. recurringDay (transaction it) = Some d \<and>
                  daysLeft it = recurringDaysLeft tz (setHours0 tz now) d
         else futureDaysLeft tz (setHours0 tz now) (transaction it) = Some (daysLeft it)"
  using transaction_upcoming [OF assms]
  by (auto simp: in_futureTransactions in_recurringTransactions
      dest: recurringItem_daysLeft futureItem_daysLeft)

lemma sorted_upcomingItems: "sorted (map daysLeft (upcomingItems tz now txs))"
  by (simp add: upcomingItems_def Let_def)

text \<open>
  The list as the code computes it, \<open>today\<close> being local midnight of
  \<open>now\<close>: a transaction that recurs on a day \<open>d\<close> other than 0 is listed
  exactly when the days to its computed due date are from 0 to 30; a
  transaction that does not recur is listed exactly when its date is valid
  and the days the code counts to it are more than 0 and at most 30; every
  item carries the days counted for its transaction; and the list is sorted
  by ascending days left.
\<close>

lemma upcomingItems_as_computed:
  "(isRecurring t = Some True \<and> recurringDay t = Some d \<and> d \<noteq> 0 \<longrightarrow>
      ((\<exists>it\<in>set (upcomingItems tz now txs). transaction it = t) \<longleftrightarrow>
       t \<in> set txs \<and> 0 \<le> recurringDaysLeft tz (setHours0 tz now) d \<and>
       recurringDaysLeft tz (setHours0 tz now) d \<le> 30))
   \<and> (isRecurring t \<noteq> Some True \<longrightarrow>
      ((\<exists>it\<in>set (upcomingItems tz now txs). transaction it = t) \<longleftrightarrow>
       t \<in> set txs \<and>
       (\<exists>dl. futureDaysLeft tz (setHours0 tz now) t = Some dl \<and> 0 < dl \<and> dl \<le> 30)))
   \<and> (\<forall>it\<in>set (upcomingItems tz now txs).
        if isRecurring (transaction it) = Some True
        then \<exists>d. recurringDay (transaction it) = Some d \<and>
                 daysLeft it = recurringDaysLeft tz (setHours0 tz now) d
        else futureDaysLeft tz (setHours0 tz now) (transaction it) = Some (daysLeft it))
   \<and> sorted (map daysLeft (upcomingItems tz now txs))"
  using upcoming_recurring [of t d tz now txs] upcoming_future [of t tz now txs]
    upcoming_daysLeft [of _ tz now txs] sorted_upcomingItems [of tz now txs]
  by blast

lemma aidat15_daysLeft:
  "recurringDaysLeft 180 (setHours0 180 (newDate 180 2025 3 10)) 15 = 5"
  unfolding setHours0_newDate recurringDaysLeft_def nextDueDate_day15
  by (simp add: ceilDays_newDate yr_def cal_defs)

lemma fatura20_daysLeft:
  "futureDaysLeft 180 (setHours0 180 (newDate 180 2025 3 10)) fatura20 = Some 10"
  unfolding setHours0_newDate
  by (simp add: futureDaysLeft_def fatura20_def sampleTx_def date_defs)

lemma upcomingItems_as_computed_example:
  "isRecurring aidat15 = Some True \<and> recurringDay aidat15 = Some 15 \<and> (15::int) \<noteq> 0
   \<and> isRecurring fatura20 \<noteq> Some True
   \<and> recurringDaysLeft 180 (setHours0 180 (newDate 180 2025 3 10)) 15 = 5
   \<and> futureDaysLeft 180 (setHours0 180 (newDate 180 2025 3 10)) fatura20 = Some 10
   \<and> (\<exists>it\<in>set (upcomingItems 180 (newDate 180 2025 3 10) [fatura20, aidat15]).
         transaction it = aidat15)
   \<and> (\<exists>it\<in>set (upcomingItems 180 (newDate 180 2025 3 10) [fatura20, aidat15]).
         transaction it = fatura20)
   \<and> sorted (map daysLeft (upcomingItems 180 (newDate 180 2025 3 10) [fatura20, aidat15]))"
proof -
  have r: "isRecurring aidat15 = Some True" "recurringDay aidat15 = Some 15"
    "isRecurring fatura20 \<noteq> Some True"
    by (simp_all add: aidat15_def fatura20_def sampleTx_def)
  from upcomingItems_as_computed
      [of aidat15 15 180 "newDate 180 2025 3 10" "[fatura20, aidat15]"]
    upcomingItems_as_computed
      [of fatura20 0 180 "newDate 180 2025 3 10" "[fatura20, aidat15]"]
    r aidat15_daysLeft fatura20_daysLeft
  show ?thesis by simp
qed

subsection \<open>The days to a dated transaction\<close>

text \<open>
  The days the code counts to a dated transaction are the local day of
  midnight UTC of its date minus the local day of \<open>now\<close>. At or east of UTC
  that is the number of days from today to the date.
\<close>

lemma ceilDays_days: "ceilDays (UTC tz (a * msPerDay) - UTC tz (b * msPerDay)) = a - b"
proof -
  have "UTC tz (a * msPerDay) - UTC tz (b * msPerDay) = (a - b) * msPerDay"
    by (simp add: UTC_def algebra_simps)
  then show ?thesis by (simp add: ceilDays_def msPerDay_def)
qed

lemma futureDaysLeft_days:
  "futureDaysLeft tz (setHours0 tz now) t =
     map_option (\<lambda>tDate. Day (LocalTime tz tDate) - Day (LocalTime tz now)) (parseDate (date t))"
  by (cases "parseDate (date t)") (simp_all add: futureDaysLeft_def setHours0_def ceilDays_days)

lemma futureDaysLeft_east_of_UTC:
  assumes "0 \<le> tz" "tz < 1440" "validDateString (date t)"
  shows "futureDaysLeft tz (setHours0 tz now) t =
     Some (MakeDay (ds_year (date t)) (ds_month (date t) - 1) (ds_day (date t))
           - Day (LocalTime tz now))"
  using assms(3)
  by (simp add: futureDaysLeft_days parseDate_def Day_LocalTime_midnight [OF assms(1,2)])

lemma upcomingItems_no_recurring:
  "recurringTransactions txs = [] \<Longrightarrow>
   upcomingItems tz now txs =
     sort_key daysLeft
       (concat (map (futureItem tz (setHours0 tz now))
          (futureTransactions tz (setHours0 tz now) txs)))"
  by (simp add: upcomingItems_def Let_def)

text \<open>
  C8. West of UTC midnight UTC of a date is still the evening before, so the
  code counts one day less than there are from today to the date. In a zone
  five hours behind UTC, on 10 April 2025: the one-off transaction dated
  2025-04-11, one day ahead, gets 0 days and is not listed; the one dated
  2025-05-11, 31 days ahead, gets 30 days and is listed, due on 10 May.
\<close>

theorem upcomingItems_day_shift:
  "date apr11 = DateString 2025 4 11 \<and> date may11 = DateString 2025 5 11
   \<and> isRecurring apr11 = Some False \<and> isRecurring may11 = Some False
   \<and> MakeDay 2025 3 11 - MakeDay 2025 3 10 = 1
   \<and> MakeDay 2025 4 11 - MakeDay 2025 3 10 = 31
   \<and> upcomingItems (-300) (newDate (-300) 2025 3 10) [apr11, may11]
       = [\<lparr>transaction = may11, dueDate = newDate (-300) 2025 4 10, daysLeft = 30\<rparr>]"
proof -
  have d: "date apr11 = DateString 2025 4 11" "date may11 = DateString 2025 5 11"
    "isRecurring apr11 = Some False" "isRecurring may11 = Some False"
    by (simp_all add: apr11_def may11_def sampleTx_def)
  have c: "MakeDay 2025 3 11 - MakeDay 2025 3 10 = 1" "MakeDay 2025 4 11 - MakeDay 2025 3 10 = 31"
    by (simp_all add: cal_defs)
  have n: "Day (LocalTime (-300) (newDate (-300) 2025 3 10)) = MakeDay 2025 3 10"
    by (simp add: Day_LocalTime_newDate yr_def)
  have pa: "parseDate (date apr11) = Some (MakeDay 2025 3 11 * msPerDay)"
    and pm: "parseDate (date may11) = Some (MakeDay 2025 4 11 * msPerDay)"
    by (simp_all add: d parseDate_def validDateString_def DaysInMonth_def cal_defs)
  have la: "Day (LocalTime (-300) (MakeDay 2025 3 11 * msPerDay)) = MakeDay 2025 3 10"
    and lm: "Day (LocalTime (-300) (MakeDay 2025 4 11 * msPerDay)) = MakeDay 2025 4 10"
    by (simp_all add: Day_def LocalTime_def msPerDay_def msPerMinute_def cal_defs)
  have fa: "futureDaysLeft (-300) (setHours0 (-300) (newDate (-300) 2025 3 10)) apr11 = Some 0"
    by (simp add: futureDaysLeft_days pa la n)
  have fm: "futureDaysLeft (-300) (setHours0 (-300) (newDate (-300) 2025 3 10)) may11 = Some 30"
    by (simp add: futureDaysLeft_days pm lm n) (simp add: cal_defs)
  have r: "recurringTransactions [apr11, may11] = []"
    by (simp add: recurringTransactions_def d)
  have f: "futureTransactions (-300) (setHours0 (-300) (newDate (-300) 2025 3 10)) [apr11, may11]
      = [may11]"
    by (simp add: futureTransactions_def d fa fm)
  have s: "setHours0 (-300) (MakeDay 2025 4 11 * msPerDay) = newDate (-300) 2025 4 10"
    by (simp add: setHours0_def lm newDate_def yr_def)
  have i: "futureItem (-300) (setHours0 (-300) (newDate (-300) 2025 3 10)) may11
      = [\<lparr>transaction = may11, dueDate = newDate (-300) 2025 4 10, daysLeft = 30\<rparr>]"
    using fm by (simp add: futureItem_def futureDaysLeft_def pm s)
  have "upcomingItems (-300) (newDate (-300) 2025 3 10) [apr11, may11]
       = [\<lparr>transaction = may11, dueDate = newDate (-300) 2025 4 10, daysLeft = 30\<rparr>]"
    by (simp add: upcomingItems_no_recurring [OF r] f i)
  with d c show ?thesis by simp
qed

section \<open>Period aggregation, proved\<close>

lemma calculatePeriodData_unfold:
  "periodBounds tz periodType year m = (label, startDate, endDate) \<Longrightarrow>
   calculatePeriodData tz now txs pname cur periodType year (Some m) =
     \<lparr>transactions_E = filter (inPeriod startDate endDate) txs, profileName = pname,
      currency_E = cur, periodLabel = label,
      totalIncome =
        sumAmounts (filter (\<lambda>t. type_T t = Income) (filter (inPeriod startDate endDate) txs)),
      totalExpense =
        sumAmounts (filter (\<lambda>t. type_T t = Expense) (filter (inPeriod startDate endDate) txs)),
      balance =
        sumAmounts (filter (\<lambda>t. type_T t = Income) (filter (inPeriod startDate endDate) txs))
        - sumAmounts (filter (\<lambda>t. type_T t = Expense) (filter (inPeriod startDate endDate) txs))\<rparr>"
  by (simp add: calculatePeriodData_def Let_def)

lemma bounds_march:
  "periodBounds tz Month 2025 2 = (''Mart 2025'', newDate tz 2025 2 1, newDate tz 2025 3 0)"
  by (simp add: periodBounds_def monthName_def monthNames_def numberToString_def)

lemma inPeriod_march5:
  "- 1440 < tz \<Longrightarrow> tz < 1440 \<Longrightarrow>
   inPeriod (newDate tz 2025 2 1) (newDate tz 2025 3 0) march5"
  by (simp add: inPeriod_def march5_def sampleTx_def date_defs)

lemma inPeriod_march10:
  "- 1440 < tz \<Longrightarrow> tz < 1440 \<Longrightarrow>
   inPeriod (newDate tz 2025 2 1) (newDate tz 2025 3 0) march10"
  by (simp add: inPeriod_def march10_def sampleTx_def date_defs)

text \<open>
  The example of the period report holds in every time zone less than a day
  from UTC: an income of 1000 on 2025-03-05 and an expense of 400 on
  2025-03-10 give, for March 2025, totals 1000 and 400, balance 600 and both
  transactions.
\<close>

lemma period_example:
  assumes "- 1440 < tz" "tz < 1440"
  shows "calculatePeriodData tz now [march5, march10] ''Ev'' TRY Month 2025 (Some 2) =
     \<lparr>transactions_E = [march5, march10], profileName = ''Ev'', currency_E = TRY,
      periodLabel = ''Mart 2025'', totalIncome = 1000, totalExpense = 400, balance = 600\<rparr>"
  unfolding calculatePeriodData_unfold [OF bounds_march]
  using inPeriod_march5 [OF assms] inPeriod_march10 [OF assms]
  by (simp add: sumAmounts_def) (simp add: march5_def march10_def sampleTx_def)

text \<open>
  In the zone UTC itself the filter compares day numbers, inclusive at both
  ends.
\<close>

lemma inPeriod_UTC:
  "inPeriod (newDate 0 y m d) (newDate 0 y' m' d') t \<longleftrightarrow>
     validDateString (date t) \<and>
     MakeDay (yr y) m d \<le> MakeDay (ds_year (date t)) (ds_month (date t) - 1) (ds_day (date t)) \<and>
     MakeDay (ds_year (date t)) (ds_month (date t) - 1) (ds_day (date t)) \<le> MakeDay (yr y') m' d'"
  by (simp add: inPeriod_def parseDate_def newDate_def UTC_def msPerDay_def)

text \<open>
  C5. The bounds of a period are local midnights, the first of the first
  day and the first of the last day, while a transaction's date-only string
  is midnight UTC. In Istanbul (three hours ahead of UTC) the end of March
  2025 is 2025-03-30T21:00Z, before the midnight UTC of 2025-03-31: the
  expense dated on the last day of the month is left out of the month's
  report, which comes out empty.
\<close>

theorem period_drops_last_day:
  "date march31 = DateString 2025 3 31
   \<and> calculatePeriodData 180 now [march31] ''Ev'' TRY Month 2025 (Some 2) =
     \<lparr>transactions_E = [], profileName = ''Ev'', currency_E = TRY, periodLabel = ''Mart 2025'',
      totalIncome = 0, totalExpense = 0, balance = 0\<rparr>"
proof -
  have f: "filter (inPeriod (newDate 180 2025 2 1) (newDate 180 2025 3 0)) [march31] = []"
    by (simp add: inPeriod_def march31_def sampleTx_def date_defs)
  show ?thesis
    unfolding calculatePeriodData_unfold [OF bounds_march] f
    by (simp add: sumAmounts_def march31_def sampleTx_def)
qed

section \<open>Grouping in the reports, proved\<close>

lemma groupStep_Income:
  "type_T t = Income \<Longrightarrow> snd (groupStep t (i, e)) = e"
  by (simp add: groupStep_def)

lemma groupStep_Expense:
  "type_T t = Expense \<Longrightarrow>
   groupStep t (i, e) =
     (i, case e (title t) of
           Some b \<Rightarrow> e(title t \<mapsto> b\<lparr>amount_B := amount_B b + amount t\<rparr>)
         | None \<Rightarrow>
             if title t \<in> set ObjectPrototypeKeys then e
             else e(title t \<mapsto> \<lparr>amount_B = amount t, category_B = category t\<rparr>))"
  by (simp add: groupStep_def)

lemma fold_groupStep_expense:
  "snd (fold groupStep ts (i, e)) k =
     (case e k of
        Some b \<Rightarrow> Some (b\<lparr>amount_B := amount_B b + sum_list (map amount (filter (\<lambda>t. type_T t = Expense \<and> title t = k) ts))\<rparr>)
      | None \<Rightarrow>
          if k \<in> set ObjectPrototypeKeys then None
          else (case filter (\<lambda>t. type_T t = Expense \<and> title t = k) ts of
                  [] \<Rightarrow> None
                | f # rest \<Rightarrow> Some \<lparr>amount_B = sum_list (map amount (f # rest)), category_B = category f\<rparr>))"
proof (induction ts arbitrary: i e)
  case Nil
  then show ?case by (simp split: option.splits)
next
  case (Cons t ts)
  show ?case
  proof (cases "type_T t")
    case Income
    obtain i' where g: "groupStep t (i, e) = (i', e)"
      using groupStep_Income [OF Income, of i e] by (cases "groupStep t (i, e)") simp
    show ?thesis
      using Income by (simp add: g Cons.IH split: option.splits list.splits)
  next
    case Expense
    show ?thesis
      using Expense
      by (auto simp: groupStep_Expense Cons.IH split: option.splits list.splits)
  qed
qed

lemma expenseByTitle_prototype_key:
  "k \<in> set ObjectPrototypeKeys \<Longrightarrow> snd (groupTransactions ts) k = None"
  by (simp add: groupTransactions_def fold_groupStep_expense)

text \<open>
  C6, as the code has it. Both reports pass their filtered transactions to
  the same grouping, in the order they hold them (the store hands them out
  sorted by date, newest first). For a title that is not a property name of
  \<^verbatim>\<open>Object.prototype\<close>, the bucket of the title exists exactly when the list
  has an expense of that title; its amount is the sum of the amounts of
  these expenses and its category is the category of the first of them in
  that order: later expenses of the title add to the amount and leave the
  category as it is.
\<close>

theorem expenseByTitle_first_category:
  "k \<notin> set ObjectPrototypeKeys \<Longrightarrow>
   snd (groupTransactions ts) k =
     (case filter (\<lambda>t. type_T t = Expense \<and> title t = k) ts of
        [] \<Rightarrow> None
      | f # rest \<Rightarrow> Some \<lparr>amount_B = sum_list (map amount (f # rest)), category_B = category f\<rparr>)"
  by (simp add: groupTransactions_def fold_groupStep_expense)

theorem expenseByTitle_first_category_witness:
  "''Kira'' \<notin> set ObjectPrototypeKeys
   \<and> snd (groupTransactions [kira1, kira2]) ''Kira''
       = Some \<lparr>amount_B = 900, category_B = Utilities\<rparr>"
proof -
  have h: "''Kira'' \<notin> set ObjectPrototypeKeys"
    by (simp add: ObjectPrototypeKeys_def)
  from expenseByTitle_first_category [OF h, of "[kira1, kira2]"] h
  show ?thesis by (simp add: kira1_def kira2_def sampleTx_def)
qed

lemma kira_current_month:
  "filter (isCurrentMonth 180 (newDate 180 2025 2 25)) [kira1, kira2] = [kira1, kira2]"
  by (simp add: isCurrentMonth_def kira1_def kira2_def sampleTx_def date_defs)

text \<open>
  The report of the current month, in Istanbul on 25 March 2025, for two
  expenses titled Kira, newest first: one of 20 March of category utilities,
  one of 1 March of category other. The bucket has the category of the first
  processed, utilities, not of the last.
\<close>

theorem expenseByTitle_last_category_counterexample:
  "\<not> (map_option category_B
         (snd (monthlyData_groups 180 (newDate 180 2025 2 25) [kira1, kira2]) ''Kira'')
        = Some (category (last [kira1, kira2])))"
  unfolding monthlyData_groups_def kira_current_month
  by (simp add: groupTransactions_def groupStep_def ObjectPrototypeKeys_def kira1_def
      kira2_def sampleTx_def)

end
